theory Spec2Isabelle
  imports Main
begin

text \<open>
  A model of the cache refresher, the server script with the retrying fetch: every
  minute it fetches a token, fetches three kinds of content with it, decodes each from
  base64 and writes it to a file of its own, and it serves the time of the last cycle.
  The earlier script, without the retrying fetch, has the same lines for decoding and
  writing and the same cycle.

  Functions of the program become functions on an explicit world; what the network, the
  disk and the clock answer is an environment that the functions read. A \<open>throw\<close> is a
  result \<open>Inl\<close>, a \<open>catch\<close> is a case distinction on it. Console output is left out: it
  decides nothing, except where building a log line can throw, and that is modelled.
\<close>

section \<open>Runtime values\<close>

text \<open>
  A thrown JavaScript error. The handlers of the program read only the \<open>message\<close> of
  what they catch, so the constructors record the error class and the message. The
  messages of the errors that the program throws are its own; those of the errors that
  the runtime throws are shortened, and nothing depends on them.
\<close>

datatype exn =
    Error (message: string)
  | TypeError (message: string)
  | SyntaxError (message: string)
  | FetchError (message: string)

text \<open>
  A value parsed from a JSON document. Numbers are restricted to integers: the program
  only tests a number for truthiness and hands it to library calls that reject every
  number alike. An object is the list of its own properties, keys distinct. A string is
  a list of 8-bit characters, which covers the base64 alphabet and the strings the
  program itself builds.
\<close>

datatype js_value =
    JNull
  | JBool bool
  | JNum int
  | JStr string
  | JArr "js_value list"
  | JObj "(string \<times> js_value) list"

text \<open>Decimal rendering of a natural number inside a template literal.\<close>

definition digit :: "nat \<Rightarrow> char" where
  "digit d = ''0123456789'' ! d"

fun toString_nat :: "nat \<Rightarrow> string" where
  "toString_nat n =
     (if n < 10 then [digit n]
      else toString_nat (n div 10) @ [digit (n mod 10)])"

declare toString_nat.simps [simp del]

section \<open>The outside world\<close>

text \<open>
  The response object of node-fetch, as far as the program reads it: \<open>status\<close>,
  \<open>statusText\<close>, and what \<open>response.json()\<close> resolves to (\<open>Inl\<close> when it rejects).
  The getter \<open>ok\<close> of node-fetch is true for a status from 200 to 299.
\<close>

record response =
  status :: nat
  statusText :: string
  json :: "exn + js_value"

definition ok :: "response \<Rightarrow> bool" where
  "ok r = (200 \<le> status r \<and> status r < 300)"

text \<open>
  The options object of a call of \<open>fetch\<close>; \<open>http_method\<close> is its property
  \<open>method\<close>. The body is kept as the value that \<open>JSON.stringify\<close> serialises.
\<close>

record options =
  http_method :: "string option"
  headers :: "(string \<times> js_value) list"
  body :: "js_value option"

text \<open>
  What the program does, in order: a wait of so many milliseconds, a call of
  \<open>fetch\<close>, an attempt to write a file, and an assignment to the module variable
  \<open>lastUpdateTime\<close>.
\<close>

datatype event =
    Sleep nat
  | Fetch string options
  | WriteFile string string
  | Assign string

text \<open>
  The environment of one run: \<open>fetch env url opts k\<close> is the outcome of the \<open>k\<close>-th
  attempt (counted from 0) of the request \<open>url\<close>, \<open>opts\<close>, \<open>Inl\<close> when the promise
  rejects; \<open>writeFile_error\<close> is the error with which writing a path fails, if it does;
  \<open>toLocaleTimeString\<close> is what \<open>new Date().toLocaleTimeString()\<close> returns when
  the cycle assigns \<open>lastUpdateTime\<close> (line 150);
  \<open>Buffer_from_object\<close> is what \<open>Buffer.from\<close> makes of an array or object.
\<close>

record env =
  fetch :: "string \<Rightarrow> options \<Rightarrow> nat \<Rightarrow> exn + response"
  writeFile_error :: "string \<Rightarrow> exn option"
  toLocaleTimeString :: string
  Buffer_from_object :: "js_value \<Rightarrow> exn + string"

text \<open>
  The state the program owns: the module variable \<open>lastUpdateTime\<close>, the files on
  disk with their contents as bytes, and the trace of effects so far (latest last).
\<close>

record world =
  lastUpdateTime :: string
  files :: "string \<rightharpoonup> string"
  trace :: "event list"

definition emit :: "event \<Rightarrow> world \<Rightarrow> world" where
  "emit e w = w\<lparr>trace := trace w @ [e]\<rparr>"

section \<open>Configuration\<close>

definition TOKEN_URL :: string where
  "TOKEN_URL = ''https://rolexcoderz.in/api/get-token''"

definition CONTENT_URL :: string where
  "CONTENT_URL = ''https://rolexcoderz.in/api/get-live-classes''"

definition MAX_RETRIES :: nat where
  "MAX_RETRIES = 5"

definition PROXY_URL :: string where
  "PROXY_URL = ''http://167.99.199.170:80''"

definition CACHE_DIR :: string where
  "CACHE_DIR = ''cache''"

definition HEADERS :: "(string \<times> js_value) list" where
  "HEADERS =
     [(''Content-Type'', JStr ''application/json''),
      (''Accept'', JStr ''application/json, text/plain, */*''),
      (''Referer'', JStr ''https://rolexcoderz.in/live-classes''),
      (''User-Agent'', JStr ''Mozilla/5.0 (Windows NT 10.0; Win64; x64) AppleWebKit/537.36 (KHTML, like Gecko) Chrome/126.0.0.0 Safari/537.36''),
      (''Accept-Encoding'', JStr ''gzip, deflate, br''),
      (''Accept-Language'', JStr ''en-US,en;q=0.9''),
      (''Connection'', JStr ''keep-alive''),
      (''Cache-Control'', JStr ''max-age=0''),
      (''DNT'', JStr ''1''),
      (''Sec-Fetch-Dest'', JStr ''empty''),
      (''Sec-Fetch-Mode'', JStr ''cors''),
      (''Sec-Fetch-Site'', JStr ''same-origin''),
      (''Pragma'', JStr ''no-cache'')]"

section \<open>fetchWithRetry\<close>

text \<open>
  The function of lines 50 to 101. \<open>setTimeout\<close> of Node.js replaces a delay above \<open>2^31 - 1\<close> or below 1 by 1 ms;
  the trace records the delay that is really waited.
\<close>

definition setTimeout :: "nat \<Rightarrow> world \<Rightarrow> world" where
  "setTimeout delay w =
     emit (Sleep (if delay > 2147483647 \<or> delay < 1 then 1 else delay)) w"

text \<open>
  What the \<open>try\<close> block (lines 81 to 91) does with the settled promise of
  \<open>fetch\<close>: a rejection is the thrown error; a response is returned or an error is
  thrown for it.
\<close>

definition check_response :: "exn + response \<Rightarrow> exn + response" where
  "check_response settled =
     (case settled of
        Inl error \<Rightarrow> Inl error
      | Inr response \<Rightarrow>
          if status response = 403 then
            Inl (Error ''403 Forbidden: Anti-bot system detected request.'')
          else if \<not> ok response then
            Inl (Error (''API failed: Status '' @ toString_nat (status response)
                        @ '' '' @ statusText response))
          else Inr response)"

text \<open>The \<open>try\<close> block of iteration \<open>i\<close>.\<close>

definition attempt :: "env \<Rightarrow> string \<Rightarrow> options \<Rightarrow> nat \<Rightarrow> exn + response" where
  "attempt env url opts i = check_response (fetch env url opts i)"

text \<open>
  The \<open>for\<close> loop (lines 53 to 97) from iteration \<open>i\<close> on, with the bound as a
  parameter \<open>N\<close>, and the \<open>throw\<close> after it (line 100). The \<open>catch\<close> block stores
  the error in \<open>lastError\<close> and the loop goes on. After the loop
  \<open>lastError.message\<close> is read: with no iteration at all \<open>lastError\<close> is still
  \<open>null\<close> and the read itself throws a \<open>TypeError\<close>.
\<close>

function fetchWithRetry_loop ::
  "nat \<Rightarrow> env \<Rightarrow> string \<Rightarrow> options \<Rightarrow> nat \<Rightarrow> exn option \<Rightarrow> world
     \<Rightarrow> (exn + response) \<times> world" where
  "fetchWithRetry_loop N env url opts i lastError w =
     (if i < N then
        let delay = 2 ^ i * 1000;
            w1 = (if i > 0 then setTimeout delay w else w);
            w2 = emit (Fetch url opts) w1
        in case attempt env url opts i of
             Inr response \<Rightarrow> (Inr response, w2)
           | Inl error \<Rightarrow> fetchWithRetry_loop N env url opts (i + 1) (Some error) w2
      else
        (case lastError of
           None \<Rightarrow>
             (Inl (TypeError ''Cannot read properties of null (reading 'message')''), w)
         | Some e \<Rightarrow>
             (Inl (Error (''All '' @ toString_nat N @ '' attempts failed. Last error: ''
                          @ message e)), w)))"
  by pat_completeness auto
termination
  by (relation "measure (\<lambda>(N, env, url, opts, i, lastError, w). N - i)") auto

declare fetchWithRetry_loop.simps [simp del]

text \<open>
  The function itself, first with the number of attempts as a parameter, then with the
  constant of the program. The parameter \<open>proxyUrl\<close> is not used by the code.
\<close>

definition fetchWithRetry_with ::
  "nat \<Rightarrow> env \<Rightarrow> string \<Rightarrow> options \<Rightarrow> string \<Rightarrow> world \<Rightarrow> (exn + response) \<times> world" where
  "fetchWithRetry_with N env url opts proxyUrl w =
     fetchWithRetry_loop N env url opts 0 None w"

definition fetchWithRetry ::
  "env \<Rightarrow> string \<Rightarrow> options \<Rightarrow> string \<Rightarrow> world \<Rightarrow> (exn + response) \<times> world" where
  "fetchWithRetry = fetchWithRetry_with MAX_RETRIES"

section \<open>Property access and truthiness\<close>

text \<open>
  Reading a property that is no built-in one of strings, arrays or \<open>Object.prototype\<close>
  (the program reads \<open>data\<close>, \<open>timestamp\<close> and \<open>signature\<close>): \<open>None\<close> is
  \<open>undefined\<close>, and reading from \<open>null\<close>, by a property access or by
  destructuring, throws. \<open>truthy\<close> is the test that \<open>!\<close> negates.
\<close>

fun get_property :: "js_value \<Rightarrow> string \<Rightarrow> exn + js_value option" where
  "get_property JNull key =
     Inl (TypeError (''Cannot read properties of null (reading '' @ key @ '')''))"
| "get_property (JObj props) key = Inr (map_of props key)"
| "get_property v key = Inr None"

fun truthy :: "js_value option \<Rightarrow> bool" where
  "truthy None = False"
| "truthy (Some JNull) = False"
| "truthy (Some (JBool b)) = b"
| "truthy (Some (JNum n)) = (n \<noteq> 0)"
| "truthy (Some (JStr s)) = (s \<noteq> [])"
| "truthy (Some (JArr xs)) = True"
| "truthy (Some (JObj props)) = True"

section \<open>Base64 and UTF-8 in the runtime\<close>

text \<open>
  The value of a character in the base64 alphabet, as in the decoding table of Node.js:
  the URL-safe characters \<open>-\<close> and \<open>_\<close> are accepted beside \<open>+\<close> and \<open>/\<close>.
\<close>

definition unbase64 :: "char \<Rightarrow> nat option" where
  "unbase64 ch =
     (let c = (of_char ch :: nat) in
      if 65 \<le> c \<and> c \<le> 90 then Some (c - 65)
      else if 97 \<le> c \<and> c \<le> 122 then Some (c - 71)
      else if 48 \<le> c \<and> c \<le> 57 then Some (c + 4)
      else if c = 43 \<or> c = 45 then Some 62
      else if c = 47 \<or> c = 95 then Some 63
      else None)"

text \<open>
  Decoding reads the characters in order, skips every character outside the alphabet
  and stops at the first \<open>=\<close>.
\<close>

fun sextets :: "string \<Rightarrow> nat list" where
  "sextets [] = []"
| "sextets (ch # s) =
     (if ch = CHR ''='' then []
      else case unbase64 ch of
             None \<Rightarrow> sextets s
           | Some v \<Rightarrow> v # sextets s)"

text \<open>
  Four values give three bytes; three values left over give two bytes, two give one,
  one gives none.
\<close>

fun from_sextets :: "nat list \<Rightarrow> nat list" where
  "from_sextets (a # b # c # d # vs) =
     [a * 4 + b div 16, (b mod 16) * 16 + c div 4, (c mod 4) * 64 + d] @ from_sextets vs"
| "from_sextets [a, b, c] = [a * 4 + b div 16, (b mod 16) * 16 + c div 4]"
| "from_sextets [a, b] = [a * 4 + b div 16]"
| "from_sextets vs = []"

definition Buffer_from_base64 :: "string \<Rightarrow> string" where
  "Buffer_from_base64 s = map char_of (from_sextets (sextets s))"

text \<open>
  \<open>Buffer.from(value, 'base64')\<close>: a string is decoded; for an array or an object the
  result is that of the runtime, read from the environment; any other value, a number or
  a boolean, is a \<open>TypeError\<close>.
\<close>

fun Buffer_from :: "env \<Rightarrow> js_value \<Rightarrow> exn + string" where
  "Buffer_from env (JStr s) = Inr (Buffer_from_base64 s)"
| "Buffer_from env (JArr xs) = Buffer_from_object env (JArr xs)"
| "Buffer_from env (JObj props) = Buffer_from_object env (JObj props)"
| "Buffer_from env v =
     Inl (TypeError ''The first argument must be of type string or an instance of Buffer, ArrayBuffer, or Array or an Array-like Object.'')"

text \<open>
  Decoding UTF-8 as the runtime does: every maximal ill-formed part of the input is
  replaced by U+FFFD, and the byte that ended it is read again. The decoded text is a
  list of code points.
\<close>

definition continuation :: "nat \<Rightarrow> bool" where
  "continuation b = (128 \<le> b \<and> b \<le> 191)"

definition second_of3 :: "nat \<Rightarrow> nat \<Rightarrow> bool" where
  "second_of3 b c =
     (if b = 224 then 160 \<le> c \<and> c \<le> 191
      else if b = 237 then 128 \<le> c \<and> c \<le> 159
      else continuation c)"

definition second_of4 :: "nat \<Rightarrow> nat \<Rightarrow> bool" where
  "second_of4 b c =
     (if b = 240 then 144 \<le> c \<and> c \<le> 191
      else if b = 244 then 128 \<le> c \<and> c \<le> 143
      else continuation c)"

fun utf8_decode :: "nat list \<Rightarrow> nat list" where
  "utf8_decode [] = []"
| "utf8_decode (b # bs) =
     (if b < 128 then b # utf8_decode bs
      else if 194 \<le> b \<and> b \<le> 223 then
        (case bs of
           [] \<Rightarrow> [65533]
         | c # cs \<Rightarrow>
             if continuation c then ((b - 192) * 64 + (c - 128)) # utf8_decode cs
             else 65533 # utf8_decode bs)
      else if 224 \<le> b \<and> b \<le> 239 then
        (case bs of
           [] \<Rightarrow> [65533]
         | c # cs \<Rightarrow>
             if second_of3 b c then
               (case cs of
                  [] \<Rightarrow> [65533]
                | d # ds \<Rightarrow>
                    if continuation d then
                      ((b - 224) * 4096 + (c - 128) * 64 + (d - 128)) # utf8_decode ds
                    else 65533 # utf8_decode cs)
             else 65533 # utf8_decode bs)
      else if 240 \<le> b \<and> b \<le> 244 then
        (case bs of
           [] \<Rightarrow> [65533]
         | c # cs \<Rightarrow>
             if second_of4 b c then
               (case cs of
                  [] \<Rightarrow> [65533]
                | d # ds \<Rightarrow>
                    if continuation d then
                      (case ds of
                         [] \<Rightarrow> [65533]
                       | e # es \<Rightarrow>
                           if continuation e then
                             ((b - 240) * 262144 + (c - 128) * 4096 + (d - 128) * 64
                                + (e - 128)) # utf8_decode es
                           else 65533 # utf8_decode ds)
                    else 65533 # utf8_decode cs)
             else 65533 # utf8_decode bs)
      else 65533 # utf8_decode bs)"

definition toString_utf8 :: "string \<Rightarrow> nat list" where
  "toString_utf8 buf = utf8_decode (map of_char buf)"

text \<open>
  Encoding a text as UTF-8, as writing a file with encoding \<open>'utf8'\<close> does. A code
  point that is no Unicode scalar value is written as U+FFFD.
\<close>

definition utf8_encode_cp :: "nat \<Rightarrow> nat list" where
  "utf8_encode_cp cp =
     (if cp < 128 then [cp]
      else if cp < 2048 then [192 + cp div 64, 128 + cp mod 64]
      else if 55296 \<le> cp \<and> cp \<le> 57343 then [239, 191, 189]
      else if cp < 65536 then
        [224 + cp div 4096, 128 + (cp div 64) mod 64, 128 + cp mod 64]
      else if cp < 1114112 then
        [240 + cp div 262144, 128 + (cp div 4096) mod 64, 128 + (cp div 64) mod 64,
         128 + cp mod 64]
      else [239, 191, 189])"

definition utf8_encode :: "nat list \<Rightarrow> string" where
  "utf8_encode text = map char_of (concat (map utf8_encode_cp text))"

section \<open>fetchAndCacheData\<close>

text \<open>
  The function of lines 111 to 143. \<open>path.join\<close> is modelled for a directory and a
  plain file name, as the three file names of the program are.
\<close>

definition path_join :: "string \<Rightarrow> string \<Rightarrow> string" where
  "path_join dir name = dir @ ''/'' @ name"

text \<open>
  \<open>fs.writeFile(path, data, 'utf8')\<close>: the write is attempted and either fails, leaving
  the file as it was, or replaces the whole content.
\<close>

definition writeFile :: "env \<Rightarrow> string \<Rightarrow> nat list \<Rightarrow> world \<Rightarrow> (exn + unit) \<times> world" where
  "writeFile env path text w =
     (let content = utf8_encode text;
          w1 = emit (WriteFile path content) w
      in case writeFile_error env path of
           Some error \<Rightarrow> (Inl error, w1)
         | None \<Rightarrow> (Inr (), w1\<lparr>files := (files w1)(path \<mapsto> content)\<rparr>))"

text \<open>
  From the parsing of the response to the decoded content (lines 126 to 134): these
  lines read and throw, and touch nothing outside.
\<close>

definition decodeData :: "env \<Rightarrow> string \<Rightarrow> response \<Rightarrow> exn + nat list" where
  "decodeData env type response =
     (case json response of
        Inl error \<Rightarrow> Inl error
      | Inr rawJson \<Rightarrow>
          (case get_property rawJson ''data'' of
             Inl error \<Rightarrow> Inl error
           | Inr base64Data \<Rightarrow>
               if \<not> truthy base64Data then
                 Inl (Error (''Data field missing in response for type: '' @ type))
               else
                 (case Buffer_from env (the base64Data) of
                    Inl error \<Rightarrow> Inl error
                  | Inr buf \<Rightarrow> Inr (toString_utf8 buf))))"

text \<open>The \<open>try\<close> block up to and including the decoding (lines 116 to 134).\<close>

definition fetchAndDecode ::
  "env \<Rightarrow> string \<Rightarrow> js_value \<Rightarrow> js_value \<Rightarrow> world \<Rightarrow> (exn + nat list) \<times> world" where
  "fetchAndDecode env type ts sig w =
     (let payload = JObj [(''type'', JStr type)] in
      case fetchWithRetry env CONTENT_URL
             \<lparr>http_method = Some ''POST'',
              headers = HEADERS @ [(''x-timestamp'', ts), (''x-signature'', sig)],
              body = Some payload\<rparr> PROXY_URL w of
        (Inl error, w1) \<Rightarrow> (Inl error, w1)
      | (Inr response, w1) \<Rightarrow> (decodeData env type response, w1))"

text \<open>
  The whole function: the write (line 137), and the \<open>catch\<close> that only logs, so that
  the function returns whatever happened.
\<close>

definition fetchAndCacheData ::
  "env \<Rightarrow> string \<Rightarrow> string \<Rightarrow> js_value \<Rightarrow> js_value \<Rightarrow> world \<Rightarrow> world" where
  "fetchAndCacheData env type filename ts sig w =
     (let filePath = path_join CACHE_DIR filename in
      case fetchAndDecode env type ts sig w of
        (Inl error, w1) \<Rightarrow> w1
      | (Inr decodedContent, w1) \<Rightarrow>
          (case writeFile env filePath decodedContent w1 of
             (Inl error, w2) \<Rightarrow> w2
           | (Inr u, w2) \<Rightarrow> w2))"

section \<open>runUpdateCycle\<close>

text \<open>
  The function of lines 148 to 177. The log line of a fetched token (line 163) is built from \<open>timestamp\<close> in a template literal and
  from \<open>signature.substring(0, 8)\<close>. Converting a value to a string throws for an object
  with an own property \<open>toString\<close> (it is not callable), also inside arrays; calling
  \<open>substring\<close> throws for everything but a string.
\<close>

fun template_throws :: "js_value \<Rightarrow> bool" where
  "template_throws (JObj props) = (''toString'' \<in> fst ` set props)"
| "template_throws (JArr xs) = (\<exists>x \<in> set xs. template_throws x)"
| "template_throws v = False"

fun substring :: "js_value \<Rightarrow> nat \<Rightarrow> nat \<Rightarrow> exn + string" where
  "substring (JStr s) a b = Inr (drop (min a b) (take (max a b) s))"
| "substring v a b = Inl (TypeError ''signature.substring is not a function'')"

definition token_log_line :: "js_value \<Rightarrow> js_value \<Rightarrow> exn + unit" where
  "token_log_line timestamp signature =
     (if template_throws timestamp then
        Inl (TypeError ''Cannot convert object to primitive value'')
      else case substring signature 0 8 of
             Inl error \<Rightarrow> Inl error
           | Inr s \<Rightarrow> Inr ())"

text \<open>
  From the parsing of the token response to the log line (lines 156 to 163): the
  destructuring of \<open>timestamp\<close> and \<open>signature\<close>, the test of both and the log line.
\<close>

definition readToken :: "response \<Rightarrow> exn + js_value \<times> js_value" where
  "readToken tokenResponse =
     (case json tokenResponse of
        Inl error \<Rightarrow> Inl error
      | Inr tokenData \<Rightarrow>
          (case get_property tokenData ''timestamp'' of
             Inl error \<Rightarrow> Inl error
           | Inr timestamp \<Rightarrow>
               (case get_property tokenData ''signature'' of
                  Inl error \<Rightarrow> Inl error
                | Inr signature \<Rightarrow>
                    if \<not> truthy timestamp \<or> \<not> truthy signature then
                      Inl (Error ''Token API did not return timestamp or signature.'')
                    else
                      (case token_log_line (the timestamp) (the signature) of
                         Inl error \<Rightarrow> Inl error
                       | Inr u \<Rightarrow> Inr (the timestamp, the signature)))))"

text \<open>Step 1 of the cycle: the token is fetched (line 154) and read.\<close>

definition acquireToken :: "env \<Rightarrow> world \<Rightarrow> (exn + js_value \<times> js_value) \<times> world" where
  "acquireToken env w =
     (case fetchWithRetry env TOKEN_URL
             \<lparr>http_method = None, headers = HEADERS, body = None\<rparr> PROXY_URL w of
        (Inl error, w1) \<Rightarrow> (Inl error, w1)
      | (Inr tokenResponse, w1) \<Rightarrow> (readToken tokenResponse, w1))"

text \<open>The three class types that are fetched.\<close>

record request_type =
  type :: string
  filename :: string
  label :: string

definition REQUEST_TYPES :: "request_type list" where
  "REQUEST_TYPES =
     [\<lparr>type = ''up'', filename = ''upcoming.json'', label = ''Upcoming''\<rparr>,
      \<lparr>type = ''live'', filename = ''live.json'', label = ''Live''\<rparr>,
      \<lparr>type = ''completed'', filename = ''completed.json'', label = ''Completed''\<rparr>]"

text \<open>
  Step 2 (lines 166 to 170) and the \<open>try\<close> block of the cycle. The three calls of \<open>fetchAndCacheData\<close> run
  interleaved in the program; each has its own request and its own file, and the
  environment answers by request and attempt, so they are run here one after the other
  in the order of \<open>REQUEST_TYPES\<close>. Only the order of the trace depends on that.
\<close>

definition updateAll :: "env \<Rightarrow> js_value \<Rightarrow> js_value \<Rightarrow> world \<Rightarrow> world" where
  "updateAll env timestamp signature w =
     fold (\<lambda>req. fetchAndCacheData env (type req) (filename req) timestamp signature)
       REQUEST_TYPES w"

definition runUpdateCycle_try :: "env \<Rightarrow> world \<Rightarrow> (exn + unit) \<times> world" where
  "runUpdateCycle_try env w =
     (case acquireToken env w of
        (Inl error, w1) \<Rightarrow> (Inl error, w1)
      | (Inr (timestamp, signature), w1) \<Rightarrow>
          (Inr (), updateAll env timestamp signature w1))"

text \<open>
  The assignment of line 150: the variable gets its new value, and the trace records
  that it did.
\<close>

definition assign_lastUpdateTime :: "string \<Rightarrow> world \<Rightarrow> world" where
  "assign_lastUpdateTime t w = emit (Assign t) (w\<lparr>lastUpdateTime := t\<rparr>)"

text \<open>
  The whole cycle: \<open>lastUpdateTime\<close> is assigned first, then the \<open>try\<close> block runs,
  and the \<open>catch\<close> only logs.
\<close>

definition runUpdateCycle :: "env \<Rightarrow> world \<Rightarrow> world" where
  "runUpdateCycle env w =
     snd (runUpdateCycle_try env (assign_lastUpdateTime (toLocaleTimeString env) w))"

section \<open>The status endpoint\<close>

text \<open>
  The handler of \<open>GET /status\<close> (lines 202 to 204): the JSON sent, and the state
  after it.
\<close>

definition get_status :: "world \<Rightarrow> js_value \<times> world" where
  "get_status w = (JObj [(''lastUpdate'', JStr (lastUpdateTime w))], w)"

section \<open>Observations on the trace\<close>

text \<open>The events a run added to the trace of the world it started from.\<close>

definition new_events :: "world \<Rightarrow> world \<Rightarrow> event list" where
  "new_events w w' = drop (length (trace w)) (trace w')"

fun sleeps :: "event list \<Rightarrow> nat list" where
  "sleeps [] = []"
| "sleeps (Sleep d # evs) = d # sleeps evs"
| "sleeps (e # evs) = sleeps evs"

fun fetches :: "string \<Rightarrow> event list \<Rightarrow> options list" where
  "fetches url [] = []"
| "fetches url (Fetch u opts # evs) =
     (if u = url then opts # fetches url evs else fetches url evs)"
| "fetches url (e # evs) = fetches url evs"

fun writes :: "event list \<Rightarrow> (string \<times> string) list" where
  "writes [] = []"
| "writes (WriteFile path content # evs) = (path, content) # writes evs"
| "writes (e # evs) = writes evs"

text \<open>All calls of \<open>fetch\<close>, whatever the address, and all assignments.\<close>

fun requests :: "event list \<Rightarrow> (string \<times> options) list" where
  "requests [] = []"
| "requests (Fetch url opts # evs) = (url, opts) # requests evs"
| "requests (e # evs) = requests evs"

fun assignments :: "event list \<Rightarrow> string list" where
  "assignments [] = []"
| "assignments (Assign t # evs) = t # assignments evs"
| "assignments (e # evs) = assignments evs"

text \<open>The delays waited during one call of the retrying fetch, in milliseconds.\<close>

definition backoff_delays ::
  "nat \<Rightarrow> env \<Rightarrow> string \<Rightarrow> options \<Rightarrow> string \<Rightarrow> world \<Rightarrow> nat list" where
  "backoff_delays N env url opts proxyUrl w =
     sleeps (new_events w (snd (fetchWithRetry_with N env url opts proxyUrl w)))"

text \<open>The events of iteration \<open>i\<close> of the retry loop.\<close>

definition attempt_events :: "string \<Rightarrow> options \<Rightarrow> nat \<Rightarrow> event list" where
  "attempt_events url opts i =
     (if i > 0 then [Sleep (if (2::nat) ^ i * 1000 > 2147483647 then 1 else 2 ^ i * 1000)]
      else [])
     @ [Fetch url opts]"

text \<open>The number of attempts from \<open>i\<close> on that fail before one succeeds.\<close>

definition failures_from :: "nat \<Rightarrow> env \<Rightarrow> string \<Rightarrow> options \<Rightarrow> nat \<Rightarrow> nat" where
  "failures_from N env url opts i =
     length (takeWhile (\<lambda>j. isl (attempt env url opts j)) [i..<N])"

section \<open>Start state, requests and the outcome of one item\<close>

text \<open>
  The state at start-up: no cycle has run, no file is cached.
\<close>

definition world0 :: world where
  "world0 = \<lparr>lastUpdateTime = ''Never'', files = Map.empty, trace = []\<rparr>"

text \<open>
  The options of the token request and of the content request for one class type, as
  the program builds them.
\<close>

definition get_options :: options where
  "get_options = \<lparr>http_method = None, headers = HEADERS, body = None\<rparr>"

definition content_options :: "string \<Rightarrow> js_value \<Rightarrow> js_value \<Rightarrow> options" where
  "content_options ty ts sg =
     \<lparr>http_method = Some ''POST'',
      headers = HEADERS @ [(''x-timestamp'', ts), (''x-signature'', sg)],
      body = Some (JObj [(''type'', JStr ty)])\<rparr>"

text \<open>
  What one call of \<open>fetchAndCacheData\<close> stores in its file: the bytes written, or
  nothing when the call fails. The outcome does not depend on the world it starts from.
\<close>

definition item_outcome ::
  "env \<Rightarrow> string \<Rightarrow> string \<Rightarrow> js_value \<Rightarrow> js_value \<Rightarrow> string option" where
  "item_outcome env ty fn ts sg =
     (case fst (fetchAndDecode env ty ts sg world0) of
        Inl e \<Rightarrow> None
      | Inr text \<Rightarrow>
          (case writeFile_error env (path_join CACHE_DIR fn) of
             Some e \<Rightarrow> None
           | None \<Rightarrow> Some (utf8_encode text)))"

section \<open>The encoding on the side of the sender\<close>

text \<open>
  The program only decodes. The content it receives is produced by encoding a text as
  UTF-8 and the bytes in base64 with the standard alphabet and padding; a text is a list
  of Unicode scalar values.
\<close>

definition b64char :: "nat \<Rightarrow> char" where
  "b64char n =
     char_of (if n < 26 then 65 + n
              else if n < 52 then 71 + n
              else if n < 62 then n - 4
              else if n = 62 then 43 else 47)"

fun base64_encode_bytes :: "nat list \<Rightarrow> string" where
  "base64_encode_bytes (a # b # c # bs) =
     [b64char (a div 4), b64char ((a mod 4) * 16 + b div 16),
      b64char ((b mod 16) * 4 + c div 64), b64char (c mod 64)] @ base64_encode_bytes bs"
| "base64_encode_bytes [a, b] =
     [b64char (a div 4), b64char ((a mod 4) * 16 + b div 16),
      b64char ((b mod 16) * 4), CHR ''='']"
| "base64_encode_bytes [a] =
     [b64char (a div 4), b64char ((a mod 4) * 16), CHR ''='', CHR ''='']"
| "base64_encode_bytes [] = []"

definition base64_encode :: "string \<Rightarrow> string" where
  "base64_encode s = base64_encode_bytes (map of_char s)"

definition scalar_value :: "nat \<Rightarrow> bool" where
  "scalar_value cp = (cp < 55296 \<or> 57343 < cp \<and> cp < 1114112)"

section \<open>Example inputs\<close>

text \<open>
  What \<open>Buffer.from\<close> of Node.js makes of an array or an object that was parsed from
  JSON, for the environments below. The elements of an array are converted to numbers
  and stored as bytes: a number modulo 256, 1 for \<open>true\<close>, the number that a string of
  up to 15 decimal digits denotes, and 0 for \<open>null\<close>, \<open>false\<close> and whatever
  converts to no number; an element that cannot be converted, an object with an own
  property \<open>toString\<close>, makes the call throw. An object with a property
  \<open>length\<close> is read as an array of that length, where a missing element counts as 0;
  the form \<open>{type: 'Buffer', data: [...]}\<close> is read as its array; a property
  \<open>valueOf\<close>, which is no function, cannot be called; and every other object is a
  \<open>TypeError\<close>. Left out, and read as 0 here: the other ways to write a number in a
  string (sign, fraction, exponent, other bases, white space, more digits) and a nested
  array of one element, which Node.js reads as that element; a length is taken to be one
  that the runtime can allocate. No example below hands such a value to
  \<open>Buffer.from\<close>.
\<close>

definition is_digits :: "string \<Rightarrow> bool" where
  "is_digits s =
     (length s \<le> 15 \<and> list_all (\<lambda>c. 48 \<le> (of_char c :: nat) \<and> (of_char c :: nat) \<le> 57) s)"

definition digits_value :: "string \<Rightarrow> nat" where
  "digits_value s = foldl (\<lambda>a c. 10 * a + (of_char c - 48)) 0 s"

fun byte_of :: "js_value \<Rightarrow> char" where
  "byte_of (JNum n) = char_of n"
| "byte_of (JBool b) = (if b then CHR 0x01 else CHR 0x00)"
| "byte_of (JStr s) = (if is_digits s then char_of (digits_value s) else CHR 0x00)"
| "byte_of v = CHR 0x00"

definition fromArrayLike :: "js_value list \<Rightarrow> exn + string" where
  "fromArrayLike xs =
     (if \<exists>x \<in> set xs. template_throws x then
        Inl (TypeError ''Cannot convert object to primitive value'')
      else Inr (map byte_of xs))"

definition fromObject :: "(string \<times> js_value) list \<Rightarrow> exn + string" where
  "fromObject props =
     (case map_of props ''length'' of
        Some (JNum n) \<Rightarrow>
          fromArrayLike (map (\<lambda>i. case map_of props (toString_nat i) of
                                     Some x \<Rightarrow> x
                                   | None \<Rightarrow> JNull) [0..<nat n])
      | Some v \<Rightarrow> Inr []
      | None \<Rightarrow>
          (if map_of props ''type'' = Some (JStr ''Buffer'') then
             (case map_of props ''data'' of
                Some (JArr ys) \<Rightarrow> fromArrayLike ys
              | other \<Rightarrow> Inl (TypeError ''The first argument must be of type string or an instance of Buffer, ArrayBuffer, or Array or an Array-like Object.''))
           else Inl (TypeError ''The first argument must be of type string or an instance of Buffer, ArrayBuffer, or Array or an Array-like Object.'')))"

definition node_from_object :: "js_value \<Rightarrow> exn + string" where
  "node_from_object v =
     (case v of
        JArr xs \<Rightarrow> fromArrayLike xs
      | JObj props \<Rightarrow>
          (case map_of props ''valueOf'' of
             Some f \<Rightarrow>
               if truthy (Some f) then Inl (TypeError ''value.valueOf is not a function'')
               else if f = JStr [] then Inr []
               else fromObject props
           | None \<Rightarrow> fromObject props)
      | other \<Rightarrow> Inl (TypeError ''The first argument must be of type string or an instance of Buffer, ArrayBuffer, or Array or an Array-like Object.''))"

text \<open>
  A response with a body that parses as JSON, and one whose body does not parse.
\<close>

definition http_response :: "nat \<Rightarrow> string \<Rightarrow> js_value \<Rightarrow> response" where
  "http_response st txt v = \<lparr>status = st, statusText = txt, json = Inr v\<rparr>"


text \<open>
  An environment in which the first \<open>k\<close> attempts of every request are answered
  with status 403 and every later one with status 200 and the JSON value \<open>v\<close>.
\<close>

definition flaky_env :: "nat \<Rightarrow> js_value \<Rightarrow> env" where
  "flaky_env k v =
     \<lparr>fetch = (\<lambda>url opts i. if i < k then Inr (http_response 403 ''Forbidden'' JNull)
                              else Inr (http_response 200 ''OK'' v)),
      writeFile_error = (\<lambda>path. None),
      toLocaleTimeString = ''10:00:00 AM'',
      Buffer_from_object = node_from_object\<rparr>"

text \<open>
  An environment that answers the token request with \<open>token\<close> and a content
  request according to its body, the same way at every attempt, and in which every write
  succeeds.
\<close>

definition api_env :: "(exn + response) \<Rightarrow> (js_value option \<Rightarrow> exn + response) \<Rightarrow> env" where
  "api_env token content =
     \<lparr>fetch = (\<lambda>url opts i. if url = TOKEN_URL then token else content (body opts)),
      writeFile_error = (\<lambda>path. None),
      toLocaleTimeString = ''10:00:00 AM'',
      Buffer_from_object = node_from_object\<rparr>"

text \<open>
  The scenario of the specification: the token is \<open>123\<close>, \<open>abcdef\<close>; the
  content of type \<open>up\<close> is the base64 of \<open>A\<close>, the request for type
  \<open>live\<close> is rejected with status 403, and any other content is the base64 of
  \<open>B\<close>.
\<close>

definition scenario_token :: "exn + response" where
  "scenario_token =
     Inr (http_response 200 ''OK''
            (JObj [(''timestamp'', JStr ''123''), (''signature'', JStr ''abcdef'')]))"

definition scenario_content :: "js_value option \<Rightarrow> exn + response" where
  "scenario_content b =
     (if b = Some (JObj [(''type'', JStr ''up'')]) then
        Inr (http_response 200 ''OK'' (JObj [(''data'', JStr ''QQ=='')]))
      else if b = Some (JObj [(''type'', JStr ''live'')]) then
        Inr (http_response 403 ''Forbidden'' JNull)
      else Inr (http_response 200 ''OK'' (JObj [(''data'', JStr ''Qg=='')])))"

definition scenario_env :: env where
  "scenario_env = api_env scenario_token scenario_content"

text \<open>
  Variations: a token response without \<open>signature\<close>; content responses that are
  the same for every type, without \<open>data\<close>, with a number as \<open>data\<close>, and with
  a string that is no well-formed base64; a world in which \<open>live.json\<close> is cached.
\<close>

definition token_without_signature :: "exn + response" where
  "token_without_signature =
     Inr (http_response 200 ''OK'' (JObj [(''timestamp'', JStr ''123'')]))"

definition constant_env :: "exn + response \<Rightarrow> env" where
  "constant_env r = api_env scenario_token (\<lambda>b. r)"


definition number_data :: "exn + response" where
  "number_data = Inr (http_response 200 ''OK'' (JObj [(''data'', JNum 5)]))"

definition sloppy_data :: "exn + response" where
  "sloppy_data = Inr (http_response 200 ''OK'' (JObj [(''data'', JStr ''Q!Q'')]))"

text \<open>
  Further content responses, the same for every type: an array of one byte as
  \<open>data\<close>, and the \<open>data\<close> that a sender makes of a text.
\<close>

definition array_data :: "exn + response" where
  "array_data = Inr (http_response 200 ''OK'' (JObj [(''data'', JArr [JNum 65])]))"

definition encoded_data :: "nat list \<Rightarrow> exn + response" where
  "encoded_data T =
     Inr (http_response 200 ''OK'' (JObj [(''data'', JStr (base64_encode (utf8_encode T)))]))"

definition world_cached :: world where
  "world_cached =
     \<lparr>lastUpdateTime = ''9:59:00 AM'',
      files = [''cache/live.json'' \<mapsto> ''old''],
      trace = []\<rparr>"

section \<open>The retry loop, step by step\<close>

lemma loop_success:
  "i < N \<Longrightarrow> attempt env url opts i = Inr r \<Longrightarrow>
   fetchWithRetry_loop N env url opts i le w =
     (Inr r, emit (Fetch url opts) (if i > 0 then setTimeout (2 ^ i * 1000) w else w))"
  by (subst fetchWithRetry_loop.simps) (simp add: Let_def)

lemma loop_failure:
  "i < N \<Longrightarrow> attempt env url opts i = Inl e \<Longrightarrow>
   fetchWithRetry_loop N env url opts i le w =
     fetchWithRetry_loop N env url opts (i + 1) (Some e)
       (emit (Fetch url opts) (if i > 0 then setTimeout (2 ^ i * 1000) w else w))"
  by (subst fetchWithRetry_loop.simps) (simp add: Let_def)

lemma loop_exhausted:
  "\<not> i < N \<Longrightarrow>
   fetchWithRetry_loop N env url opts i le w =
     (case le of
        None \<Rightarrow> (Inl (TypeError ''Cannot read properties of null (reading 'message')''), w)
      | Some e \<Rightarrow> (Inl (Error (''All '' @ toString_nat N @ '' attempts failed. Last error: ''
                          @ message e)), w))"
  by (subst fetchWithRetry_loop.simps) simp

lemma trace_step:
  "trace (emit (Fetch url opts) (if i > 0 then setTimeout (2 ^ i * 1000) w else w))
     = trace w @ attempt_events url opts i"
  by (simp add: emit_def setTimeout_def attempt_events_def)

lemma loop_trace:
  "trace (snd (fetchWithRetry_loop N env url opts i le w)) =
     trace w @ concat (map (attempt_events url opts)
                 [i ..< min N (i + failures_from N env url opts i + 1)])"
proof (induction N env url opts i le w rule: fetchWithRetry_loop.induct)
  case (1 N env url opts i lastError w)
  show ?case
  proof (cases "i < N")
    case False
    then show ?thesis
      by (simp add: loop_exhausted split: option.splits)
  next
    case True
    show ?thesis
    proof (cases "attempt env url opts i")
      case (Inr r)
      with True show ?thesis
        by (simp add: loop_success trace_step failures_from_def upt_conv_Cons)
    next
      case (Inl e)
      have f: "failures_from N env url opts i = Suc (failures_from N env url opts (i + 1))"
        using True Inl by (simp add: failures_from_def upt_conv_Cons)
      have "[i ..< min N (i + failures_from N env url opts i + 1)] =
              i # [i + 1 ..< min N (i + 1 + failures_from N env url opts (i + 1) + 1)]"
        using True by (simp add: f upt_conv_Cons)
      with True Inl "1.IH"[OF True refl refl refl Inl] show ?thesis
        by (simp add: loop_failure trace_step)
    qed
  qed
qed

lemma loop_returns:
  "i \<le> k \<Longrightarrow> k < N \<Longrightarrow> \<forall>j. i \<le> j \<and> j < k \<longrightarrow> isl (attempt env url opts j) \<Longrightarrow>
   attempt env url opts k = Inr r \<Longrightarrow>
   fst (fetchWithRetry_loop N env url opts i le w) = Inr r"
proof (induction "k - i" arbitrary: i le w)
  case 0
  then have "i = k" by simp
  with 0 show ?case by (simp add: loop_success)
next
  case (Suc d)
  then have lt: "i < k" by simp
  with Suc.prems obtain e where e: "attempt env url opts i = Inl e"
    by (metis isl_def le_refl)
  have "fst (fetchWithRetry_loop N env url opts (i + 1) (Some e)
          (emit (Fetch url opts) (if i > 0 then setTimeout (2 ^ i * 1000) w else w))) = Inr r"
    using Suc.hyps(2) lt Suc.prems by (intro Suc.hyps(1)) auto
  with e lt Suc.prems(2) show ?case by (simp add: loop_failure)
qed

lemma loop_raises:
  "i < N \<Longrightarrow> \<forall>j. i \<le> j \<and> j < N \<longrightarrow> isl (attempt env url opts j) \<Longrightarrow>
   fst (fetchWithRetry_loop N env url opts i le w) =
     Inl (Error (''All '' @ toString_nat N @ '' attempts failed. Last error: ''
                 @ message (projl (attempt env url opts (N - 1)))))"
proof (induction "N - i" arbitrary: i le w)
  case 0
  then show ?case by simp
next
  case (Suc d)
  from Suc.prems obtain e where e: "attempt env url opts i = Inl e"
    by (metis isl_def le_refl)
  show ?case
  proof (cases "i + 1 < N")
    case True
    have "fst (fetchWithRetry_loop N env url opts (i + 1) (Some e)
            (emit (Fetch url opts) (if i > 0 then setTimeout (2 ^ i * 1000) w else w))) =
          Inl (Error (''All '' @ toString_nat N @ '' attempts failed. Last error: ''
                 @ message (projl (attempt env url opts (N - 1)))))"
      using Suc.hyps(2) True Suc.prems by (intro Suc.hyps(1)) auto
    with e Suc.prems(1) show ?thesis by (simp add: loop_failure)
  next
    case False
    with Suc.prems(1) have "i = N - 1" by simp
    with e False Suc.prems(1) show ?thesis
      by (simp add: loop_failure loop_exhausted)
  qed
qed

lemma loop_fst_world:
  "\<forall>w'. fst (fetchWithRetry_loop N env url opts i le w) =
        fst (fetchWithRetry_loop N env url opts i le w')"
proof (induction N env url opts i le w rule: fetchWithRetry_loop.induct)
  case (1 N env url opts i lastError w)
  show ?case
  proof (cases "i < N")
    case False
    then show ?thesis by (simp add: loop_exhausted split: option.splits)
  next
    case True
    show ?thesis
    proof (cases "attempt env url opts i")
      case (Inr r)
      with True show ?thesis by (simp add: loop_success)
    next
      case (Inl e)
      with True "1.IH"[OF True refl refl refl Inl] show ?thesis
        by (simp add: loop_failure)
    qed
  qed
qed

lemma loop_files:
  "files (snd (fetchWithRetry_loop N env url opts i le w)) = files w \<and>
   lastUpdateTime (snd (fetchWithRetry_loop N env url opts i le w)) = lastUpdateTime w"
proof (induction N env url opts i le w rule: fetchWithRetry_loop.induct)
  case (1 N env url opts i lastError w)
  show ?case
  proof (cases "i < N")
    case False
    then show ?thesis by (simp add: loop_exhausted split: option.splits)
  next
    case True
    show ?thesis
    proof (cases "attempt env url opts i")
      case (Inr r)
      with True show ?thesis by (simp add: loop_success emit_def setTimeout_def)
    next
      case (Inl e)
      with True "1.IH"[OF True refl refl refl Inl] show ?thesis
        by (simp add: loop_failure emit_def setTimeout_def)
    qed
  qed
qed

lemma loop_Inr:
  "fst (fetchWithRetry_loop N env url opts i le w) = Inr r \<Longrightarrow>
   \<exists>k. attempt env url opts k = Inr r"
proof (induction N env url opts i le w rule: fetchWithRetry_loop.induct)
  case (1 N env url opts i lastError w)
  show ?case
  proof (cases "i < N")
    case False
    with "1.prems" show ?thesis by (simp add: loop_exhausted split: option.splits)
  next
    case True
    show ?thesis
    proof (cases "attempt env url opts i")
      case (Inr r')
      with True "1.prems" show ?thesis by (auto simp: loop_success)
    next
      case (Inl e)
      with True "1.prems" "1.IH"[OF True refl refl refl Inl] show ?thesis
        by (simp add: loop_failure)
    qed
  qed
qed

lemma attempt_Inr:
  "attempt env url opts k = Inr r \<Longrightarrow>
   fetch env url opts k = Inr r \<and> status r \<noteq> 403 \<and> ok r"
  by (auto simp: attempt_def check_response_def split: sum.splits if_splits)

subsection \<open>The whole call\<close>

lemma fetchWithRetry_fst_world:
  "fst (fetchWithRetry env url opts p w) = fst (fetchWithRetry env url opts p w')"
  using loop_fst_world by (simp add: fetchWithRetry_def fetchWithRetry_with_def)

lemma fetchWithRetry_files:
  "files (snd (fetchWithRetry env url opts p w)) = files w"
  by (simp add: fetchWithRetry_def fetchWithRetry_with_def loop_files)

lemma fetchWithRetry_lastUpdateTime:
  "lastUpdateTime (snd (fetchWithRetry env url opts p w)) = lastUpdateTime w"
  by (simp add: fetchWithRetry_def fetchWithRetry_with_def loop_files)

lemma fetchWithRetry_trace:
  "trace (snd (fetchWithRetry env url opts p w)) =
     trace w @ concat (map (attempt_events url opts)
        [0 ..< min MAX_RETRIES (failures_from MAX_RETRIES env url opts 0 + 1)])"
  by (simp add: fetchWithRetry_def fetchWithRetry_with_def loop_trace)

lemma fetchWithRetry_first_try:
  "attempt env url opts 0 = Inr r \<Longrightarrow> fst (fetchWithRetry env url opts p w) = Inr r"
  by (simp add: fetchWithRetry_def fetchWithRetry_with_def MAX_RETRIES_def loop_success)

lemma fetchWithRetry_all_fail:
  "\<forall>j<5. isl (attempt env url opts j) \<Longrightarrow>
   fst (fetchWithRetry env url opts p w) =
     Inl (Error (''All 5 attempts failed. Last error: ''
                 @ message (projl (attempt env url opts 4))))"
  using loop_raises [of 0 5 env url opts None w]
  by (simp add: fetchWithRetry_def fetchWithRetry_with_def MAX_RETRIES_def
      toString_nat.simps digit_def)

subsection \<open>The example environments\<close>

lemma attempt_flaky:
  "attempt (flaky_env k v) url opts i =
     (if i < k then Inl (Error ''403 Forbidden: Anti-bot system detected request.'')
      else Inr (http_response 200 ''OK'' v))"
  by (simp add: attempt_def flaky_env_def check_response_def http_response_def ok_def)

lemma check_response_200:
  "check_response (Inr (http_response 200 txt v)) = Inr (http_response 200 txt v)"
  by (simp add: check_response_def http_response_def ok_def)

lemma check_response_403:
  "check_response (Inr (http_response 403 txt v)) =
     Inl (Error ''403 Forbidden: Anti-bot system detected request.'')"
  by (simp add: check_response_def http_response_def)


lemma json_http_response: "json (http_response st txt v) = Inr v"
  by (simp add: http_response_def)

lemma urls_differ: "CONTENT_URL \<noteq> TOKEN_URL"
  by (simp add: CONTENT_URL_def TOKEN_URL_def)

lemma attempt_api_token:
  "attempt (api_env token content) TOKEN_URL opts i = check_response token"
  by (simp add: attempt_def api_env_def)

lemma body_content_options: "body (content_options ty ts sg) = Some (JObj [(''type'', JStr ty)])"
  by (simp add: content_options_def)

lemma api_env_fetch:
  "fst (fetchWithRetry (api_env token content) url opts p w) =
     (case check_response (if url = TOKEN_URL then token else content (body opts)) of
        Inl e \<Rightarrow> Inl (Error (''All 5 attempts failed. Last error: '' @ message e))
      | Inr r \<Rightarrow> Inr r)"
proof (cases "check_response (if url = TOKEN_URL then token else content (body opts))")
  case (Inl e)
  then have "\<forall>j<5. isl (attempt (api_env token content) url opts j)"
    by (simp add: attempt_def api_env_def)
  then have "fst (fetchWithRetry (api_env token content) url opts p w) =
     Inl (Error (''All 5 attempts failed. Last error: ''
                 @ message (projl (attempt (api_env token content) url opts 4))))"
    by (rule fetchWithRetry_all_fail)
  with Inl show ?thesis by (simp add: attempt_def api_env_def)
next
  case (Inr r)
  then have "attempt (api_env token content) url opts 0 = Inr r"
    by (simp add: attempt_def api_env_def)
  then have "fst (fetchWithRetry (api_env token content) url opts p w) = Inr r"
    by (rule fetchWithRetry_first_try)
  with Inr show ?thesis by simp
qed

lemma api_env_fields:
  "writeFile_error (api_env token content) path = None"
  "toLocaleTimeString (api_env token content) = ''10:00:00 AM''"
  "Buffer_from_object (api_env token content) = node_from_object"
  by (simp_all add: api_env_def)

lemma constant_env_fetch:
  "fst (fetchWithRetry (constant_env r) CONTENT_URL opts p w) =
     (case check_response r of
        Inl e \<Rightarrow> Inl (Error (''All 5 attempts failed. Last error: '' @ message e))
      | Inr r \<Rightarrow> Inr r)"
  by (simp add: constant_env_def api_env_fetch urls_differ)


subsection \<open>The requests of a call\<close>

lemma failures_from_ge:
  "i \<le> N \<Longrightarrow> \<forall>j<i. isl (attempt env url opts j) \<Longrightarrow> i \<le> failures_from N env url opts 0"
proof -
  assume le: "i \<le> N" and f: "\<forall>j<i. isl (attempt env url opts j)"
  have "[0..<N] = [0..<i] @ [i..<N]"
    using le by (metis le_add_diff_inverse upt_add_eq_append zero_le)
  moreover have "\<forall>j \<in> set [0..<i]. isl (attempt env url opts j)"
    using f by simp
  ultimately have "takeWhile (\<lambda>j. isl (attempt env url opts j)) [0..<N] =
      [0..<i] @ takeWhile (\<lambda>j. isl (attempt env url opts j)) [i..<N]"
    by (metis takeWhile_append2)
  then show ?thesis by (simp add: failures_from_def)
qed

lemma new_events_loop:
  "new_events w (snd (fetchWithRetry_with N env url opts proxyUrl w)) =
     concat (map (attempt_events url opts)
        [0 ..< min N (failures_from N env url opts 0 + 1)])"
  by (simp add: new_events_def fetchWithRetry_with_def loop_trace)

lemma failures_from_eq:
  assumes "k < N" and "\<forall>j<k. isl (attempt env url opts j)"
    and "\<not> isl (attempt env url opts k)"
  shows "failures_from N env url opts 0 = k"
proof -
  have "[0..<N] = [0..<k] @ [k..<N]"
    using assms(1) by (metis le_add_diff_inverse less_imp_le_nat upt_add_eq_append zero_le)
  also have "[k..<N] = k # [Suc k..<N]"
    using assms(1) by (simp add: upt_conv_Cons)
  finally have "[0..<N] = [0..<k] @ k # [Suc k..<N]" .
  moreover have "\<forall>j \<in> set [0..<k]. isl (attempt env url opts j)"
    using assms(2) by simp
  ultimately have "takeWhile (\<lambda>j. isl (attempt env url opts j)) [0..<N] =
      [0..<k] @ takeWhile (\<lambda>j. isl (attempt env url opts j)) (k # [Suc k..<N])"
    by (metis takeWhile_append2)
  with assms(3) show ?thesis by (simp add: failures_from_def)
qed

lemma failures_from_le: "failures_from N env url opts 0 \<le> N"
  using length_takeWhile_le [of "\<lambda>j. isl (attempt env url opts j)" "[0..<N]"]
  by (simp add: failures_from_def)

lemma requests_append: "requests (xs @ ys) = requests xs @ requests ys"
  by (induction xs rule: requests.induct) simp_all

lemma requests_attempts:
  "requests (concat (map (attempt_events url opts) ks)) = replicate (length ks) (url, opts)"
  by (induction ks) (simp_all add: requests_append attempt_events_def)

lemma requests_loop:
  "requests (new_events w (snd (fetchWithRetry_with N env url opts proxyUrl w))) =
     replicate (min N (failures_from N env url opts 0 + 1)) (url, opts)"
  by (simp add: new_events_loop requests_attempts)

section \<open>The result of the retrying fetch (C1)\<close>

text \<open>
  C1, as the code has it: with \<open>N\<close> attempts configured, a call whose attempts
  \<open>0, \<dots>, k - 1\<close> fail and whose attempt \<open>k\<close> succeeds, for a \<open>k\<close> below
  \<open>N\<close>, returns the response of attempt \<open>k\<close> and has sent exactly \<open>k + 1\<close>
  requests; a call whose \<open>N\<close> attempts all fail raises one error whose message embeds
  the message of the last failure, and has sent exactly \<open>N\<close> requests. There is no
  attempt \<open>N + 1\<close>: no call sends more than \<open>N\<close> requests, and every request of a
  call is the request to the given address with the given options.
\<close>

theorem fetchWithRetry_result:
  "(k < N \<and> (\<forall>j<k. isl (attempt env url opts j)) \<and> attempt env url opts k = Inr r
      \<longrightarrow> fst (fetchWithRetry_with N env url opts proxyUrl w) = Inr r \<and>
          requests (new_events w (snd (fetchWithRetry_with N env url opts proxyUrl w)))
            = replicate (k + 1) (url, opts)) \<and>
   (0 < N \<and> (\<forall>j<N. isl (attempt env url opts j))
      \<longrightarrow> fst (fetchWithRetry_with N env url opts proxyUrl w) =
            Inl (Error (''All '' @ toString_nat N @ '' attempts failed. Last error: ''
                        @ message (projl (attempt env url opts (N - 1))))) \<and>
          requests (new_events w (snd (fetchWithRetry_with N env url opts proxyUrl w)))
            = replicate N (url, opts)) \<and>
   length (requests (new_events w (snd (fetchWithRetry_with N env url opts proxyUrl w)))) \<le> N \<and>
   set (requests (new_events w (snd (fetchWithRetry_with N env url opts proxyUrl w))))
     \<subseteq> {(url, opts)}"
proof -
  have a: "fst (fetchWithRetry_with N env url opts proxyUrl w) = Inr r \<and>
      requests (new_events w (snd (fetchWithRetry_with N env url opts proxyUrl w)))
        = replicate (k + 1) (url, opts)"
    if "k < N" "\<forall>j<k. isl (attempt env url opts j)" "attempt env url opts k = Inr r"
  proof -
    have "failures_from N env url opts 0 = k"
      using that by (intro failures_from_eq) simp_all
    with that(1) have "min N (failures_from N env url opts 0 + 1) = k + 1" by simp
    then have "requests (new_events w (snd (fetchWithRetry_with N env url opts proxyUrl w)))
        = replicate (k + 1) (url, opts)"
      by (simp only: requests_loop)
    moreover have "fst (fetchWithRetry_with N env url opts proxyUrl w) = Inr r"
      unfolding fetchWithRetry_with_def
      using loop_returns [of 0 k N env url opts r None w] that by simp
    ultimately show ?thesis by simp
  qed
  have b: "fst (fetchWithRetry_with N env url opts proxyUrl w) =
        Inl (Error (''All '' @ toString_nat N @ '' attempts failed. Last error: ''
                    @ message (projl (attempt env url opts (N - 1))))) \<and>
      requests (new_events w (snd (fetchWithRetry_with N env url opts proxyUrl w)))
        = replicate N (url, opts)"
    if "0 < N" "\<forall>j<N. isl (attempt env url opts j)"
  proof -
    have "N \<le> failures_from N env url opts 0"
      using that by (intro failures_from_ge) simp_all
    then have "min N (failures_from N env url opts 0 + 1) = N" by simp
    then have "requests (new_events w (snd (fetchWithRetry_with N env url opts proxyUrl w)))
        = replicate N (url, opts)"
      by (simp only: requests_loop)
    moreover have "fst (fetchWithRetry_with N env url opts proxyUrl w) =
        Inl (Error (''All '' @ toString_nat N @ '' attempts failed. Last error: ''
                    @ message (projl (attempt env url opts (N - 1)))))"
      unfolding fetchWithRetry_with_def
      using loop_raises [of 0 N env url opts None w] that by simp
    ultimately show ?thesis by simp
  qed
  have c: "length (requests (new_events w (snd (fetchWithRetry_with N env url opts proxyUrl w)))) \<le> N"
    by (simp add: requests_loop)
  have d: "set (requests (new_events w (snd (fetchWithRetry_with N env url opts proxyUrl w))))
     \<subseteq> {(url, opts)}"
    by (simp only: requests_loop set_replicate_conv_if) simp
  from a b c d show ?thesis by blast
qed

theorem fetchWithRetry_result_witness:
  "(2 < (5::nat) \<and> isl (attempt (flaky_env 2 JNull) TOKEN_URL get_options 0)
      \<and> isl (attempt (flaky_env 2 JNull) TOKEN_URL get_options 1)
      \<and> attempt (flaky_env 2 JNull) TOKEN_URL get_options 2 = Inr (http_response 200 ''OK'' JNull)
      \<and> fst (fetchWithRetry_with 5 (flaky_env 2 JNull) TOKEN_URL get_options PROXY_URL world0)
          = Inr (http_response 200 ''OK'' JNull)
      \<and> requests (new_events world0
            (snd (fetchWithRetry_with 5 (flaky_env 2 JNull) TOKEN_URL get_options PROXY_URL world0)))
          = [(TOKEN_URL, get_options), (TOKEN_URL, get_options), (TOKEN_URL, get_options)]) \<and>
   (0 < (5::nat) \<and> isl (attempt (flaky_env 5 JNull) TOKEN_URL get_options 0)
      \<and> isl (attempt (flaky_env 5 JNull) TOKEN_URL get_options 1)
      \<and> isl (attempt (flaky_env 5 JNull) TOKEN_URL get_options 2)
      \<and> isl (attempt (flaky_env 5 JNull) TOKEN_URL get_options 3)
      \<and> isl (attempt (flaky_env 5 JNull) TOKEN_URL get_options 4)
      \<and> fst (fetchWithRetry_with 5 (flaky_env 5 JNull) TOKEN_URL get_options PROXY_URL world0)
          = Inl (Error ''All 5 attempts failed. Last error: 403 Forbidden: Anti-bot system detected request.'')
      \<and> requests (new_events world0
            (snd (fetchWithRetry_with 5 (flaky_env 5 JNull) TOKEN_URL get_options PROXY_URL world0)))
          = [(TOKEN_URL, get_options), (TOKEN_URL, get_options), (TOKEN_URL, get_options),
             (TOKEN_URL, get_options), (TOKEN_URL, get_options)])"
proof -
  have a: "2 < (5::nat) \<and> (\<forall>j<2. isl (attempt (flaky_env 2 JNull) TOKEN_URL get_options j))
      \<and> attempt (flaky_env 2 JNull) TOKEN_URL get_options 2 = Inr (http_response 200 ''OK'' JNull)"
    by (simp add: attempt_flaky)
  have b: "0 < (5::nat) \<and> (\<forall>j<5. isl (attempt (flaky_env 5 JNull) TOKEN_URL get_options j))"
    by (simp add: attempt_flaky)
  have r3: "replicate 3 (TOKEN_URL, get_options) =
      [(TOKEN_URL, get_options), (TOKEN_URL, get_options), (TOKEN_URL, get_options)]"
    by (simp add: numeral_eq_Suc)
  have r5: "replicate 5 (TOKEN_URL, get_options) =
      [(TOKEN_URL, get_options), (TOKEN_URL, get_options), (TOKEN_URL, get_options),
       (TOKEN_URL, get_options), (TOKEN_URL, get_options)]"
    by (simp add: numeral_eq_Suc)
  from a b
    fetchWithRetry_result [of 2 5 "flaky_env 2 JNull" TOKEN_URL get_options
        "http_response 200 ''OK'' JNull" PROXY_URL world0]
    fetchWithRetry_result [of 2 5 "flaky_env 5 JNull" TOKEN_URL get_options
        "http_response 200 ''OK'' JNull" PROXY_URL world0]
  show ?thesis
    by (simp add: attempt_flaky toString_nat.simps digit_def r3 r5)
qed

text \<open>
  C1 as stated fails: five attempts are configured, the fetch fails five times and
  would succeed on the sixth attempt, and the call raises instead of returning.
\<close>

theorem fetchWithRetry_sixth_attempt_counterexample:
  "isl (attempt (flaky_env 5 JNull) TOKEN_URL get_options 0) \<and>
   isl (attempt (flaky_env 5 JNull) TOKEN_URL get_options 1) \<and>
   isl (attempt (flaky_env 5 JNull) TOKEN_URL get_options 2) \<and>
   isl (attempt (flaky_env 5 JNull) TOKEN_URL get_options 3) \<and>
   isl (attempt (flaky_env 5 JNull) TOKEN_URL get_options 4) \<and>
   attempt (flaky_env 5 JNull) TOKEN_URL get_options 5 = Inr (http_response 200 ''OK'' JNull) \<and>
   MAX_RETRIES = 5 \<and>
   fst (fetchWithRetry (flaky_env 5 JNull) TOKEN_URL get_options PROXY_URL world0)
     \<noteq> Inr (http_response 200 ''OK'' JNull) \<and>
   fst (fetchWithRetry (flaky_env 5 JNull) TOKEN_URL get_options PROXY_URL world0)
     = Inl (Error ''All 5 attempts failed. Last error: 403 Forbidden: Anti-bot system detected request.'')"
  by (simp add: attempt_flaky fetchWithRetry_def fetchWithRetry_with_def MAX_RETRIES_def
      fetchWithRetry_loop.simps Let_def toString_nat.simps digit_def)

section \<open>The backoff delays (C2, C9)\<close>

lemma sleeps_append: "sleeps (xs @ ys) = sleeps xs @ sleeps ys"
  by (induction xs rule: sleeps.induct) simp_all

lemma sleeps_attempts:
  "sleeps (concat (map (attempt_events url opts) [0..<m])) =
     map (\<lambda>j. if (2::nat) ^ j * 1000 > 2147483647 then 1 else 2 ^ j * 1000) [1..<m]"
proof (induction m)
  case 0
  show ?case by simp
next
  case (Suc m)
  show ?case
  proof (cases "m = 0")
    case True
    then show ?thesis by (simp add: attempt_events_def)
  next
    case False
    then have "[1..<Suc m] = [1..<m] @ [m]" by simp
    with Suc False show ?thesis
      by (simp add: sleeps_append attempt_events_def)
  qed
qed

lemma backoff_delays_eq:
  "backoff_delays N env url opts proxyUrl w =
     map (\<lambda>j. if (2::nat) ^ j * 1000 > 2147483647 then 1 else 2 ^ j * 1000)
       [1 ..< min N (failures_from N env url opts 0 + 1)]"
  by (simp add: backoff_delays_def new_events_def fetchWithRetry_with_def loop_trace
      sleeps_attempts)

lemma small_delay: "i < 22 \<Longrightarrow> \<not> (2::nat) ^ i * 1000 > 2147483647"
proof -
  assume "i < 22"
  then have "(2::nat) ^ i \<le> 2 ^ 21" by (intro power_increasing) simp_all
  then show ?thesis by simp
qed

lemma length_attempts:
  "length (concat (map (attempt_events url opts) [0..<Suc i])) = 2 * i + 1"
  by (induction i) (simp_all add: attempt_events_def)

lemma attempts_split:
  assumes "1 \<le> i" "i < m"
  shows "concat (map (attempt_events url opts) [0..<m]) =
         concat (map (attempt_events url opts) [0..<Suc (i - 1)]) @
         attempt_events url opts i @ concat (map (attempt_events url opts) [Suc i..<m])"
proof -
  have "[0..<m] = [0..<i] @ [i..<m]"
    using assms by (metis le_add_diff_inverse less_imp_le_nat upt_add_eq_append zero_le)
  also have "[i..<m] = i # [Suc i..<m]"
    using assms by (simp add: upt_conv_Cons)
  finally show ?thesis using assms by simp
qed

lemma wait_then_fetch:
  assumes "1 \<le> i" "i < m" "i < 22"
  shows "2 * i < length (concat (map (attempt_events url opts) [0..<m])) \<and>
         concat (map (attempt_events url opts) [0..<m]) ! (2 * i - 1) = Sleep (2 ^ i * 1000) \<and>
         concat (map (attempt_events url opts) [0..<m]) ! (2 * i) = Fetch url opts"
proof -
  let ?pre = "concat (map (attempt_events url opts) [0..<Suc (i - 1)])"
  let ?post = "concat (map (attempt_events url opts) [Suc i..<m])"
  have len: "length ?pre = 2 * i - 1"
    using length_attempts [of url opts "i - 1"] assms(1) by simp
  have ev: "attempt_events url opts i = [Sleep (2 ^ i * 1000), Fetch url opts]"
    using assms(1) small_delay [OF assms(3)] by (simp add: attempt_events_def)
  have split: "concat (map (attempt_events url opts) [0..<m]) =
      ?pre @ [Sleep (2 ^ i * 1000), Fetch url opts] @ ?post"
    using attempts_split [OF assms(1,2)] ev by simp
  have a: "(?pre @ [Sleep (2 ^ i * 1000), Fetch url opts] @ ?post) ! (2 * i - 1) = Sleep (2 ^ i * 1000)"
    using len by (simp add: nth_append del: upt_Suc)
  have "2 * i = length ?pre + 1" using len assms(1) by simp
  then have b: "(?pre @ [Sleep (2 ^ i * 1000), Fetch url opts] @ ?post) ! (2 * i) = Fetch url opts"
    by (simp add: nth_append del: upt_Suc)
  have c: "2 * i < length (?pre @ [Sleep (2 ^ i * 1000), Fetch url opts] @ ?post)"
    using len assms(1) by (simp del: upt_Suc)
  from a b c show ?thesis unfolding split by blast
qed

text \<open>
  C2: in a call of \<open>fetchWithRetry\<close> that reaches attempt \<open>i\<close>, for \<open>i\<close> from 1 to
  \<open>MAX_RETRIES - 1\<close>, the event just before the fetch of attempt \<open>i\<close> is a wait of
  exactly \<open>2^i\<close> seconds, and it is the \<open>i\<close>-th wait of the call.
\<close>

theorem backoff_delay_before_attempt:
  assumes "1 \<le> i" and "i < MAX_RETRIES"
    and "\<forall>j<i. isl (attempt env url opts j)"
  shows "2 * i < length (new_events w (snd (fetchWithRetry env url opts proxyUrl w))) \<and>
         new_events w (snd (fetchWithRetry env url opts proxyUrl w)) ! (2 * i - 1)
           = Sleep (2 ^ i * 1000) \<and>
         new_events w (snd (fetchWithRetry env url opts proxyUrl w)) ! (2 * i)
           = Fetch url opts \<and>
         i \<le> length (backoff_delays MAX_RETRIES env url opts proxyUrl w) \<and>
         backoff_delays MAX_RETRIES env url opts proxyUrl w ! (i - 1) = 2 ^ i * 1000"
proof -
  define m where "m = min MAX_RETRIES (failures_from MAX_RETRIES env url opts 0 + 1)"
  have "i \<le> failures_from MAX_RETRIES env url opts 0"
    using assms by (intro failures_from_ge) simp_all
  with assms have m: "i < m" by (simp add: m_def)
  have i22: "i < 22"
    using assms(2) by (simp add: MAX_RETRIES_def)
  have small: "\<not> (2::nat) ^ i * 1000 > 2147483647"
    using i22 by (rule small_delay)
  have evs: "new_events w (snd (fetchWithRetry env url opts proxyUrl w)) =
      concat (map (attempt_events url opts) [0..<m])"
    by (simp add: fetchWithRetry_def new_events_loop m_def)
  have eq: "backoff_delays MAX_RETRIES env url opts proxyUrl w =
      map (\<lambda>j. if (2::nat) ^ j * 1000 > 2147483647 then 1 else 2 ^ j * 1000) [1..<m]"
    by (simp add: backoff_delays_eq m_def)
  have idx: "i - 1 < length [1..<m]"
    using m assms(1) by simp
  have "[1..<m] ! (i - 1) = i"
    using m assms(1) by (simp add: nth_upt)
  with idx small have "backoff_delays MAX_RETRIES env url opts proxyUrl w ! (i - 1) = 2 ^ i * 1000"
    by (simp add: eq del: upt_Suc)
  moreover have "i \<le> length (backoff_delays MAX_RETRIES env url opts proxyUrl w)"
    using m by (simp add: eq)
  ultimately show ?thesis
    using wait_then_fetch [OF assms(1) m i22, of url opts] unfolding evs by simp
qed

theorem backoff_delay_before_attempt_witness:
  "(1::nat) \<le> 3 \<and> 3 < MAX_RETRIES \<and>
   isl (attempt (flaky_env 4 JNull) TOKEN_URL get_options 0) \<and>
   isl (attempt (flaky_env 4 JNull) TOKEN_URL get_options 1) \<and>
   isl (attempt (flaky_env 4 JNull) TOKEN_URL get_options 2) \<and>
   new_events world0 (snd (fetchWithRetry (flaky_env 4 JNull) TOKEN_URL get_options PROXY_URL world0)) ! 5
     = Sleep 8000 \<and>
   new_events world0 (snd (fetchWithRetry (flaky_env 4 JNull) TOKEN_URL get_options PROXY_URL world0)) ! 6
     = Fetch TOKEN_URL get_options \<and>
   backoff_delays MAX_RETRIES (flaky_env 4 JNull) TOKEN_URL get_options PROXY_URL world0 ! 2 = 8000"
proof -
  have h: "\<forall>j<3. isl (attempt (flaky_env 4 JNull) TOKEN_URL get_options j)"
    by (simp add: attempt_flaky)
  have n: "(3::nat) < MAX_RETRIES" by (simp add: MAX_RETRIES_def)
  from backoff_delay_before_attempt [OF _ n h, where proxyUrl = PROXY_URL and w = world0] h n
  show ?thesis by simp
qed

text \<open>
  C9, as the code has it: when all five attempts fail, four delays are waited, of 2 s,
  4 s, 8 s and 16 s. No delay precedes the first attempt, so none of 1 s is waited: the
  call starts with its first request, and each later request follows its delay.
\<close>

theorem backoff_delays_all_fail:
  assumes "\<forall>j<5. isl (attempt env url opts j)"
  shows "backoff_delays 5 env url opts proxyUrl w = [2000, 4000, 8000, 16000] \<and>
         new_events w (snd (fetchWithRetry_with 5 env url opts proxyUrl w)) =
           [Fetch url opts,
            Sleep 2000, Fetch url opts,
            Sleep 4000, Fetch url opts,
            Sleep 8000, Fetch url opts,
            Sleep 16000, Fetch url opts]"
proof -
  have "5 \<le> failures_from 5 env url opts 0"
    using assms by (intro failures_from_ge) simp_all
  then have m: "min 5 (failures_from 5 env url opts 0 + 1) = 5" by simp
  have "backoff_delays 5 env url opts proxyUrl w = [2000, 4000, 8000, 16000]"
    using m by (simp add: backoff_delays_eq upt_conv_Cons)
  moreover have "new_events w (snd (fetchWithRetry_with 5 env url opts proxyUrl w)) =
           [Fetch url opts,
            Sleep 2000, Fetch url opts,
            Sleep 4000, Fetch url opts,
            Sleep 8000, Fetch url opts,
            Sleep 16000, Fetch url opts]"
    using m by (simp add: new_events_loop upt_conv_Cons attempt_events_def)
  ultimately show ?thesis by simp
qed

theorem backoff_delays_all_fail_witness:
  "isl (attempt (flaky_env 5 JNull) TOKEN_URL get_options 0) \<and>
   isl (attempt (flaky_env 5 JNull) TOKEN_URL get_options 1) \<and>
   isl (attempt (flaky_env 5 JNull) TOKEN_URL get_options 2) \<and>
   isl (attempt (flaky_env 5 JNull) TOKEN_URL get_options 3) \<and>
   isl (attempt (flaky_env 5 JNull) TOKEN_URL get_options 4) \<and>
   backoff_delays 5 (flaky_env 5 JNull) TOKEN_URL get_options PROXY_URL world0
     = [2000, 4000, 8000, 16000] \<and>
   new_events world0
       (snd (fetchWithRetry_with 5 (flaky_env 5 JNull) TOKEN_URL get_options PROXY_URL world0)) =
     [Fetch TOKEN_URL get_options,
      Sleep 2000, Fetch TOKEN_URL get_options,
      Sleep 4000, Fetch TOKEN_URL get_options,
      Sleep 8000, Fetch TOKEN_URL get_options,
      Sleep 16000, Fetch TOKEN_URL get_options]"
proof -
  have h: "\<forall>j<5. isl (attempt (flaky_env 5 JNull) TOKEN_URL get_options j)"
    by (simp add: attempt_flaky)
  from backoff_delays_all_fail [OF h] h show ?thesis by simp
qed

text \<open>
  C9 as stated fails: with five failing attempts the delays are not 1 s, 2 s, 4 s, 8 s
  and 16 s.
\<close>

theorem backoff_delays_counterexample:
  "isl (attempt (flaky_env 5 JNull) TOKEN_URL get_options 0) \<and>
   isl (attempt (flaky_env 5 JNull) TOKEN_URL get_options 1) \<and>
   isl (attempt (flaky_env 5 JNull) TOKEN_URL get_options 2) \<and>
   isl (attempt (flaky_env 5 JNull) TOKEN_URL get_options 3) \<and>
   isl (attempt (flaky_env 5 JNull) TOKEN_URL get_options 4) \<and>
   MAX_RETRIES = 5 \<and>
   backoff_delays MAX_RETRIES (flaky_env 5 JNull) TOKEN_URL get_options PROXY_URL world0
     \<noteq> [1000, 2000, 4000, 8000, 16000]"
  by (simp add: attempt_flaky backoff_delays_def fetchWithRetry_with_def MAX_RETRIES_def
      fetchWithRetry_loop.simps Let_def new_events_def world0_def emit_def setTimeout_def)

section \<open>Status 403 and the other failures (C6)\<close>

text \<open>
  C6: a response that \<open>fetchWithRetry\<close> returns has a status other than 403 and is
  \<open>ok\<close>, whatever its body; a response with status 403 makes the attempt throw the
  anti-bot error, any other response that is not \<open>ok\<close> makes it throw the API-failure
  error, whose message is always a different one, and a rejected fetch throws its own
  error; after any of the three the loop goes on in the same way.
\<close>

theorem forbidden_never_success:
  "(fst (fetchWithRetry env url opts proxyUrl w) = Inr r \<longrightarrow> status r \<noteq> 403 \<and> ok r) \<and>
   (status resp = 403 \<longrightarrow>
      check_response (Inr resp) =
        Inl (Error ''403 Forbidden: Anti-bot system detected request.'')) \<and>
   (status resp \<noteq> 403 \<and> \<not> ok resp \<longrightarrow>
      check_response (Inr resp) =
        Inl (Error (''API failed: Status '' @ toString_nat (status resp) @ '' ''
                    @ statusText resp))) \<and>
   ''403 Forbidden: Anti-bot system detected request.''
      \<noteq> ''API failed: Status '' @ toString_nat (status resp) @ '' '' @ statusText resp \<and>
   check_response (Inl e) = Inl e \<and>
   (i < N \<and> attempt env url opts i = Inl e \<longrightarrow>
      fetchWithRetry_loop N env url opts i lastError w =
        fetchWithRetry_loop N env url opts (i + 1) (Some e)
          (emit (Fetch url opts) (if i > 0 then setTimeout (2 ^ i * 1000) w else w)))"
proof -
  have "status r \<noteq> 403 \<and> ok r" if "fst (fetchWithRetry env url opts proxyUrl w) = Inr r"
  proof -
    from that obtain k where "attempt env url opts k = Inr r"
      unfolding fetchWithRetry_def fetchWithRetry_with_def by (blast dest: loop_Inr)
    then show ?thesis by (simp add: attempt_Inr)
  qed
  then show ?thesis
    by (simp add: check_response_def loop_failure)
qed

theorem forbidden_never_success_witness:
  "fst (fetchWithRetry (flaky_env 1 JNull) TOKEN_URL get_options PROXY_URL world0)
     = Inr (http_response 200 ''OK'' JNull) \<and>
   status (http_response 200 ''OK'' JNull) \<noteq> 403 \<and>
   ok (http_response 200 ''OK'' JNull) \<and>
   status (http_response 403 ''Forbidden'' (JObj [(''data'', JStr ''QQ=='')])) = 403 \<and>
   check_response (Inr (http_response 403 ''Forbidden'' (JObj [(''data'', JStr ''QQ=='')])))
     = Inl (Error ''403 Forbidden: Anti-bot system detected request.'') \<and>
   status (http_response 500 ''Internal Server Error'' JNull) \<noteq> 403 \<and>
   \<not> ok (http_response 500 ''Internal Server Error'' JNull) \<and>
   check_response (Inr (http_response 500 ''Internal Server Error'' JNull))
     = Inl (Error ''API failed: Status 500 Internal Server Error'') \<and>
   check_response (Inl (FetchError ''socket hang up'')) = Inl (FetchError ''socket hang up'') \<and>
   (0::nat) < 5 \<and>
   attempt (flaky_env 1 JNull) TOKEN_URL get_options 0
     = Inl (Error ''403 Forbidden: Anti-bot system detected request.'') \<and>
   fetchWithRetry_loop 5 (flaky_env 1 JNull) TOKEN_URL get_options 0 None world0 =
     fetchWithRetry_loop 5 (flaky_env 1 JNull) TOKEN_URL get_options 1
       (Some (Error ''403 Forbidden: Anti-bot system detected request.''))
       (emit (Fetch TOKEN_URL get_options) world0)"
proof -
  have a: "fst (fetchWithRetry (flaky_env 1 JNull) TOKEN_URL get_options PROXY_URL world0)
     = Inr (http_response 200 ''OK'' JNull)"
    using loop_returns [of 0 1 5 "flaky_env 1 JNull" TOKEN_URL get_options
        "http_response 200 ''OK'' JNull" None world0]
    by (simp add: fetchWithRetry_def fetchWithRetry_with_def MAX_RETRIES_def attempt_flaky)
  have b: "status (http_response 403 ''Forbidden'' (JObj [(''data'', JStr ''QQ=='')])) = 403"
    "status (http_response 500 ''Internal Server Error'' JNull) \<noteq> 403 \<and>
     \<not> ok (http_response 500 ''Internal Server Error'' JNull)"
    "(0::nat) < 5 \<and> attempt (flaky_env 1 JNull) TOKEN_URL get_options 0
     = Inl (Error ''403 Forbidden: Anti-bot system detected request.'')"
    by (simp_all add: http_response_def ok_def attempt_flaky)
  from a b
    forbidden_never_success [of "flaky_env 1 JNull" TOKEN_URL get_options PROXY_URL world0
      "http_response 200 ''OK'' JNull"
      "http_response 403 ''Forbidden'' (JObj [(''data'', JStr ''QQ=='')])"
      "FetchError ''socket hang up''" 0 5 None]
    forbidden_never_success [of "flaky_env 1 JNull" TOKEN_URL get_options PROXY_URL world0
      "http_response 200 ''OK'' JNull"
      "http_response 500 ''Internal Server Error'' JNull"
      "Error ''403 Forbidden: Anti-bot system detected request.''" 0 5 None]
  show ?thesis
    by (simp add: http_response_def toString_nat.simps digit_def)
qed

section \<open>The parts of a cycle\<close>

lemma fetches_append: "fetches url (xs @ ys) = fetches url xs @ fetches url ys"
  by (induction url xs rule: fetches.induct) simp_all

lemma writes_append: "writes (xs @ ys) = writes xs @ writes ys"
  by (induction xs rule: writes.induct) simp_all

lemma writes_attempts: "writes (concat (map (attempt_events url opts) ks)) = []"
  by (induction ks) (simp_all add: writes_append attempt_events_def)

lemma fetches_attempts_other:
  "url' \<noteq> url \<Longrightarrow> fetches url' (concat (map (attempt_events url opts) ks)) = []"
  by (induction ks) (simp_all add: fetches_append attempt_events_def)

lemma fetchAndDecode_eq:
  "fetchAndDecode env ty ts sg w =
     (case fst (fetchWithRetry env CONTENT_URL (content_options ty ts sg) PROXY_URL w) of
        Inl e \<Rightarrow> Inl e
      | Inr response \<Rightarrow> decodeData env ty response,
      snd (fetchWithRetry env CONTENT_URL (content_options ty ts sg) PROXY_URL w))"
  by (cases "fetchWithRetry env CONTENT_URL (content_options ty ts sg) PROXY_URL w")
     (simp add: fetchAndDecode_def content_options_def Let_def split: sum.splits)

lemma snd_fetchAndDecode:
  "snd (fetchAndDecode env ty ts sg w) =
     snd (fetchWithRetry env CONTENT_URL (content_options ty ts sg) PROXY_URL w)"
  by (simp add: fetchAndDecode_eq)

lemma fst_fetchAndDecode_world:
  "fst (fetchAndDecode env ty ts sg w) = fst (fetchAndDecode env ty ts sg w')"
  using fetchWithRetry_fst_world [of env CONTENT_URL "content_options ty ts sg" PROXY_URL w w']
  by (simp add: fetchAndDecode_eq)

lemma fetchAndCacheData_failed:
  assumes "fst (fetchAndDecode env ty ts sg w) = Inl e"
  shows "fetchAndCacheData env ty fn ts sg w =
         snd (fetchWithRetry env CONTENT_URL (content_options ty ts sg) PROXY_URL w)"
  using assms snd_fetchAndDecode [of env ty ts sg w]
  by (cases "fetchAndDecode env ty ts sg w") (simp add: fetchAndCacheData_def Let_def)

lemma fetchAndCacheData_decoded:
  assumes "fst (fetchAndDecode env ty ts sg w) = Inr text"
  shows "fetchAndCacheData env ty fn ts sg w =
         snd (writeFile env (path_join CACHE_DIR fn) text
           (snd (fetchWithRetry env CONTENT_URL (content_options ty ts sg) PROXY_URL w)))"
  using assms snd_fetchAndDecode [of env ty ts sg w]
  by (cases "fetchAndDecode env ty ts sg w")
     (simp add: fetchAndCacheData_def Let_def split: prod.splits sum.splits)

lemma writeFile_files:
  "files (snd (writeFile env path text w)) =
     (case writeFile_error env path of
        Some e \<Rightarrow> files w
      | None \<Rightarrow> (files w)(path \<mapsto> utf8_encode text))"
  by (simp add: writeFile_def emit_def Let_def split: option.splits)

lemma writeFile_trace:
  "trace (snd (writeFile env path text w)) = trace w @ [WriteFile path (utf8_encode text)]"
  by (simp add: writeFile_def emit_def Let_def split: option.splits)

lemma writeFile_lastUpdateTime:
  "lastUpdateTime (snd (writeFile env path text w)) = lastUpdateTime w"
  by (simp add: writeFile_def emit_def Let_def split: option.splits)

lemma fetchAndCacheData_files:
  "files (fetchAndCacheData env ty fn ts sg w) =
     (case item_outcome env ty fn ts sg of
        None \<Rightarrow> files w
      | Some content \<Rightarrow> (files w)(path_join CACHE_DIR fn \<mapsto> content))"
proof (cases "fst (fetchAndDecode env ty ts sg w)")
  case (Inl e)
  then have "fst (fetchAndDecode env ty ts sg world0) = Inl e"
    using fst_fetchAndDecode_world [of env ty ts sg w world0] by simp
  with Inl show ?thesis
    by (simp add: fetchAndCacheData_failed item_outcome_def fetchWithRetry_files)
next
  case (Inr decoded)
  then have "fst (fetchAndDecode env ty ts sg world0) = Inr decoded"
    using fst_fetchAndDecode_world [of env ty ts sg w world0] by simp
  with Inr show ?thesis
    by (simp add: fetchAndCacheData_decoded item_outcome_def writeFile_files
        fetchWithRetry_files split: option.splits)
qed

lemma fetchAndCacheData_lastUpdateTime:
  "lastUpdateTime (fetchAndCacheData env ty fn ts sg w) = lastUpdateTime w"
  by (cases "fst (fetchAndDecode env ty ts sg w)")
     (simp_all add: fetchAndCacheData_failed fetchAndCacheData_decoded
        writeFile_lastUpdateTime fetchWithRetry_lastUpdateTime)

lemma fetchAndCacheData_events:
  "new_events w (fetchAndCacheData env ty fn ts sg w) =
     concat (map (attempt_events CONTENT_URL (content_options ty ts sg))
        [0 ..< min MAX_RETRIES
            (failures_from MAX_RETRIES env CONTENT_URL (content_options ty ts sg) 0 + 1)])
     @ (case fst (fetchAndDecode env ty ts sg w) of
          Inl e \<Rightarrow> []
        | Inr decoded \<Rightarrow> [WriteFile (path_join CACHE_DIR fn) (utf8_encode decoded)])"
  by (cases "fst (fetchAndDecode env ty ts sg w)")
     (simp_all add: fetchAndCacheData_failed fetchAndCacheData_decoded new_events_def
        fetchWithRetry_trace writeFile_trace)

lemma updateAll_unfold:
  "updateAll env ts sg w =
     fetchAndCacheData env ''completed'' ''completed.json'' ts sg
       (fetchAndCacheData env ''live'' ''live.json'' ts sg
         (fetchAndCacheData env ''up'' ''upcoming.json'' ts sg w))"
  by (simp add: updateAll_def REQUEST_TYPES_def)

lemma updateAll_lastUpdateTime:
  "lastUpdateTime (updateAll env ts sg w) = lastUpdateTime w"
  by (simp add: updateAll_unfold fetchAndCacheData_lastUpdateTime)

lemma acquireToken_eq:
  "acquireToken env w =
     (case fst (fetchWithRetry env TOKEN_URL get_options PROXY_URL w) of
        Inl e \<Rightarrow> Inl e
      | Inr tokenResponse \<Rightarrow> readToken tokenResponse,
      snd (fetchWithRetry env TOKEN_URL get_options PROXY_URL w))"
  by (cases "fetchWithRetry env TOKEN_URL get_options PROXY_URL w")
     (simp add: acquireToken_def get_options_def split: sum.splits)

lemma snd_acquireToken:
  "snd (acquireToken env w) = snd (fetchWithRetry env TOKEN_URL get_options PROXY_URL w)"
  by (simp add: acquireToken_eq)

lemma fst_acquireToken_world:
  "fst (acquireToken env w) = fst (acquireToken env w')"
  using fetchWithRetry_fst_world [of env TOKEN_URL get_options PROXY_URL w w']
  by (simp add: acquireToken_eq)

lemma assign_fields [simp]:
  "files (assign_lastUpdateTime t w) = files w"
  "lastUpdateTime (assign_lastUpdateTime t w) = t"
  "trace (assign_lastUpdateTime t w) = trace w @ [Assign t]"
  by (simp_all add: assign_lastUpdateTime_def emit_def)

lemma runUpdateCycle_failed:
  assumes "fst (acquireToken env w) = Inl e"
  shows "runUpdateCycle env w =
     snd (fetchWithRetry env TOKEN_URL get_options PROXY_URL
            (assign_lastUpdateTime (toLocaleTimeString env) w))"
proof -
  have "fst (acquireToken env (assign_lastUpdateTime (toLocaleTimeString env) w)) = Inl e"
    using assms fst_acquireToken_world [of env w] by simp
  then show ?thesis
    using snd_acquireToken [of env "assign_lastUpdateTime (toLocaleTimeString env) w"]
    by (cases "acquireToken env (assign_lastUpdateTime (toLocaleTimeString env) w)")
       (simp add: runUpdateCycle_def runUpdateCycle_try_def)
qed

lemma runUpdateCycle_token:
  assumes "fst (acquireToken env w) = Inr (ts, sg)"
  shows "runUpdateCycle env w =
     updateAll env ts sg
       (snd (fetchWithRetry env TOKEN_URL get_options PROXY_URL
            (assign_lastUpdateTime (toLocaleTimeString env) w)))"
proof -
  have "fst (acquireToken env (assign_lastUpdateTime (toLocaleTimeString env) w)) = Inr (ts, sg)"
    using assms fst_acquireToken_world [of env w] by simp
  then show ?thesis
    using snd_acquireToken [of env "assign_lastUpdateTime (toLocaleTimeString env) w"]
    by (cases "acquireToken env (assign_lastUpdateTime (toLocaleTimeString env) w)")
       (simp add: runUpdateCycle_def runUpdateCycle_try_def)
qed

lemma failed_cycle_events:
  assumes "fst (acquireToken env w) = Inl e"
  shows "new_events w (runUpdateCycle env w) =
     Assign (toLocaleTimeString env) #
     concat (map (attempt_events TOKEN_URL get_options)
        [0 ..< min MAX_RETRIES (failures_from MAX_RETRIES env TOKEN_URL get_options 0 + 1)])"
  using assms by (simp add: runUpdateCycle_failed new_events_def fetchWithRetry_trace)

lemma readToken_missing:
  assumes "json tokenResponse = Inr tokenData"
    and "get_property tokenData ''timestamp'' = Inr timestamp"
    and "get_property tokenData ''signature'' = Inr signature"
    and "\<not> truthy timestamp \<or> \<not> truthy signature"
  shows "readToken tokenResponse =
         Inl (Error ''Token API did not return timestamp or signature.'')"
  using assms by (auto simp: readToken_def)

lemma scenario_acquireToken:
  "fst (acquireToken (api_env scenario_token content) w) = Inr (JStr ''123'', JStr ''abcdef'')"
  by (simp add: acquireToken_eq api_env_fetch scenario_token_def check_response_200
      readToken_def json_http_response token_log_line_def)

section \<open>The time of the last update (C7)\<close>

lemma assignments_append: "assignments (xs @ ys) = assignments xs @ assignments ys"
  by (induction xs rule: assignments.induct) simp_all

lemma assignments_attempts: "assignments (concat (map (attempt_events url opts) ks)) = []"
  by (induction ks) (simp_all add: assignments_append attempt_events_def)

lemma first_attempt:
  "concat (map (attempt_events url opts)
      [0 ..< min MAX_RETRIES (failures_from MAX_RETRIES env url opts 0 + 1)]) =
   Fetch url opts # concat (map (attempt_events url opts)
      [1 ..< min MAX_RETRIES (failures_from MAX_RETRIES env url opts 0 + 1)])"
proof -
  have "0 < min MAX_RETRIES (failures_from MAX_RETRIES env url opts 0 + 1)"
    by (simp add: MAX_RETRIES_def)
  then have "[0 ..< min MAX_RETRIES (failures_from MAX_RETRIES env url opts 0 + 1)] =
      0 # [1 ..< min MAX_RETRIES (failures_from MAX_RETRIES env url opts 0 + 1)]"
    by (simp add: upt_conv_Cons)
  then show ?thesis by (simp add: attempt_events_def)
qed

lemma fetchAndCacheData_trace:
  "\<exists>evs. trace (fetchAndCacheData env ty fn ts sg w) = trace w @ evs \<and> assignments evs = []"
proof (cases "fst (fetchAndDecode env ty ts sg w)")
  case (Inl e)
  then show ?thesis
    by (simp add: fetchAndCacheData_failed fetchWithRetry_trace assignments_attempts)
next
  case (Inr decoded)
  then show ?thesis
    by (simp add: fetchAndCacheData_decoded fetchWithRetry_trace writeFile_trace
        assignments_attempts assignments_append)
qed

lemma updateAll_trace:
  "\<exists>evs. trace (updateAll env ts sg w) = trace w @ evs \<and> assignments evs = []"
proof -
  obtain e1 where e1: "trace (fetchAndCacheData env ''up'' ''upcoming.json'' ts sg w) = trace w @ e1"
      "assignments e1 = []"
    using fetchAndCacheData_trace by blast
  obtain e2 where e2: "trace (fetchAndCacheData env ''live'' ''live.json'' ts sg
        (fetchAndCacheData env ''up'' ''upcoming.json'' ts sg w)) =
      trace (fetchAndCacheData env ''up'' ''upcoming.json'' ts sg w) @ e2"
      "assignments e2 = []"
    using fetchAndCacheData_trace by blast
  obtain e3 where e3: "trace (updateAll env ts sg w) =
      trace (fetchAndCacheData env ''live'' ''live.json'' ts sg
        (fetchAndCacheData env ''up'' ''upcoming.json'' ts sg w)) @ e3"
      "assignments e3 = []"
    unfolding updateAll_unfold using fetchAndCacheData_trace by blast
  have "trace (updateAll env ts sg w) = trace w @ (e1 @ e2 @ e3)"
    using e1(1) e2(1) e3(1) by simp
  moreover have "assignments (e1 @ e2 @ e3) = []"
    using e1(2) e2(2) e3(2) by (simp add: assignments_append)
  ultimately show ?thesis by blast
qed

lemma cycle_events:
  "\<exists>evs. new_events w (runUpdateCycle env w) =
           Assign (toLocaleTimeString env) # Fetch TOKEN_URL get_options # evs \<and>
         assignments evs = []"
proof (cases "fst (acquireToken env w)")
  case (Inl e)
  have "new_events w (runUpdateCycle env w) =
      Assign (toLocaleTimeString env) # Fetch TOKEN_URL get_options #
      concat (map (attempt_events TOKEN_URL get_options)
        [1 ..< min MAX_RETRIES (failures_from MAX_RETRIES env TOKEN_URL get_options 0 + 1)])"
    unfolding failed_cycle_events [OF Inl] first_attempt by (rule refl)
  moreover have "assignments (concat (map (attempt_events TOKEN_URL get_options)
        [1 ..< min MAX_RETRIES (failures_from MAX_RETRIES env TOKEN_URL get_options 0 + 1)])) = []"
    by (rule assignments_attempts)
  ultimately show ?thesis by blast
next
  case (Inr tok)
  obtain ts sg where tok: "tok = (ts, sg)" by (cases tok)
  let ?w1 = "snd (fetchWithRetry env TOKEN_URL get_options PROXY_URL
            (assign_lastUpdateTime (toLocaleTimeString env) w))"
  let ?tail = "concat (map (attempt_events TOKEN_URL get_options)
      [1 ..< min MAX_RETRIES (failures_from MAX_RETRIES env TOKEN_URL get_options 0 + 1)])"
  obtain evs where evs: "trace (updateAll env ts sg ?w1) = trace ?w1 @ evs" "assignments evs = []"
    using updateAll_trace by blast
  have w1: "trace ?w1 = trace w @ Assign (toLocaleTimeString env) # Fetch TOKEN_URL get_options # ?tail"
    unfolding fetchWithRetry_trace first_attempt by simp
  have "runUpdateCycle env w = updateAll env ts sg ?w1"
    using Inr tok by (simp add: runUpdateCycle_token)
  then have "new_events w (runUpdateCycle env w) =
      Assign (toLocaleTimeString env) # Fetch TOKEN_URL get_options # (?tail @ evs)"
    using evs(1) w1 by (simp add: new_events_def)
  moreover have "assignments (?tail @ evs) = []"
    using evs(2) by (simp add: assignments_append assignments_attempts)
  ultimately show ?thesis by blast
qed

lemma runUpdateCycle_try_lastUpdateTime:
  "lastUpdateTime (snd (runUpdateCycle_try env w)) = lastUpdateTime w"
proof (cases "fst (acquireToken env w)")
  case (Inl e)
  then show ?thesis
    using snd_acquireToken [of env w]
    by (cases "acquireToken env w")
       (simp add: runUpdateCycle_try_def fetchWithRetry_lastUpdateTime)
next
  case (Inr tok)
  then show ?thesis
    using snd_acquireToken [of env w]
    by (cases "acquireToken env w"; cases tok)
       (simp add: runUpdateCycle_try_def updateAll_lastUpdateTime fetchWithRetry_lastUpdateTime)
qed

text \<open>
  C7: whatever the environment answers, and so also when the token cannot be acquired,
  a cycle begins by assigning the reading of the clock to \<open>lastUpdateTime\<close>: the
  assignment is the first event of the cycle, the request for the token comes right
  after it, and it is the only assignment of the cycle: the rest of the cycle, the block
  under \<open>try\<close>, leaves the variable as it finds it. So \<open>lastUpdateTime\<close> after the
  cycle is that reading.
  The status query reports the value and leaves the state as it is.
\<close>

theorem lastUpdateTime_overwritten:
  "take 2 (new_events w (runUpdateCycle env w)) =
     [Assign (toLocaleTimeString env), Fetch TOKEN_URL get_options] \<and>
   assignments (new_events w (runUpdateCycle env w)) = [toLocaleTimeString env] \<and>
   lastUpdateTime (snd (runUpdateCycle_try env w')) = lastUpdateTime w' \<and>
   lastUpdateTime (runUpdateCycle env w) = toLocaleTimeString env \<and>
   get_status (runUpdateCycle env w) =
     (JObj [(''lastUpdate'', JStr (toLocaleTimeString env))], runUpdateCycle env w)"
proof -
  obtain evs where evs: "new_events w (runUpdateCycle env w) =
           Assign (toLocaleTimeString env) # Fetch TOKEN_URL get_options # evs"
         "assignments evs = []"
    using cycle_events by blast
  have "lastUpdateTime (runUpdateCycle env w) = toLocaleTimeString env"
    by (simp add: runUpdateCycle_def runUpdateCycle_try_lastUpdateTime)
  then show ?thesis
    using evs by (simp add: get_status_def runUpdateCycle_try_lastUpdateTime)
qed

theorem lastUpdateTime_overwritten_witness:
  "lastUpdateTime world0 = ''Never'' \<and>
   isl (fst (acquireToken (api_env token_without_signature scenario_content) world0)) \<and>
   take 2 (new_events world0
       (runUpdateCycle (api_env token_without_signature scenario_content) world0)) =
     [Assign ''10:00:00 AM'', Fetch TOKEN_URL get_options] \<and>
   assignments (new_events world0
       (runUpdateCycle (api_env token_without_signature scenario_content) world0)) =
     [''10:00:00 AM''] \<and>
   lastUpdateTime (snd (runUpdateCycle_try
       (api_env token_without_signature scenario_content) world0)) = ''Never'' \<and>
   lastUpdateTime (runUpdateCycle (api_env token_without_signature scenario_content) world0)
     = ''10:00:00 AM'' \<and>
   get_status (runUpdateCycle (api_env token_without_signature scenario_content) world0) =
     (JObj [(''lastUpdate'', JStr ''10:00:00 AM'')],
      runUpdateCycle (api_env token_without_signature scenario_content) world0) \<and>
   take 2 (new_events world_cached (runUpdateCycle scenario_env world_cached)) =
     [Assign ''10:00:00 AM'', Fetch TOKEN_URL get_options] \<and>
   assignments (new_events world_cached (runUpdateCycle scenario_env world_cached)) =
     [''10:00:00 AM''] \<and>
   lastUpdateTime (runUpdateCycle scenario_env world_cached) = ''10:00:00 AM''"
proof -
  have "isl (fst (acquireToken (api_env token_without_signature scenario_content) world0))"
    by (simp add: acquireToken_eq api_env_fetch token_without_signature_def check_response_200
        readToken_def json_http_response)
  with lastUpdateTime_overwritten [where w = world0 and w' = world0
        and env = "api_env token_without_signature scenario_content"]
    lastUpdateTime_overwritten [where w = world_cached and w' = world0 and env = scenario_env]
  show ?thesis
    by (simp add: api_env_fields scenario_env_def world0_def)
qed

section \<open>A cycle without a token (C3)\<close>

text \<open>
  C3: when the token response lacks \<open>timestamp\<close> or \<open>signature\<close>, or either is
  falsy, the acquisition of the token fails; and whenever it fails, the cycle sends no
  request to the content endpoint, writes nothing and leaves every file as it was.
\<close>

theorem token_failure_ends_cycle:
  "(fst (fetchWithRetry env TOKEN_URL get_options PROXY_URL w) = Inr tokenResponse \<and>
    json tokenResponse = Inr tokenData \<and>
    get_property tokenData ''timestamp'' = Inr timestamp \<and>
    get_property tokenData ''signature'' = Inr signature \<and>
    (\<not> truthy timestamp \<or> \<not> truthy signature)
      \<longrightarrow> fst (acquireToken env w) =
            Inl (Error ''Token API did not return timestamp or signature.'')) \<and>
   (isl (fst (acquireToken env w))
      \<longrightarrow> fetches CONTENT_URL (new_events w (runUpdateCycle env w)) = [] \<and>
          writes (new_events w (runUpdateCycle env w)) = [] \<and>
          files (runUpdateCycle env w) = files w)"
proof -
  have a: "fst (acquireToken env w) =
            Inl (Error ''Token API did not return timestamp or signature.'')"
    if "fst (fetchWithRetry env TOKEN_URL get_options PROXY_URL w) = Inr tokenResponse"
      and "json tokenResponse = Inr tokenData"
      and "get_property tokenData ''timestamp'' = Inr timestamp"
      and "get_property tokenData ''signature'' = Inr signature"
      and "\<not> truthy timestamp \<or> \<not> truthy signature"
    using that by (simp add: acquireToken_eq readToken_missing)
  have b: "fetches CONTENT_URL (new_events w (runUpdateCycle env w)) = [] \<and>
          writes (new_events w (runUpdateCycle env w)) = [] \<and>
          files (runUpdateCycle env w) = files w"
    if "isl (fst (acquireToken env w))"
  proof -
    from that obtain e where e: "fst (acquireToken env w) = Inl e"
      by (auto simp: isl_def)
    have "files (runUpdateCycle env w) = files w"
      by (simp add: runUpdateCycle_failed [OF e] fetchWithRetry_files)
    then show ?thesis
      unfolding failed_cycle_events [OF e]
      by (simp add: writes_attempts fetches_attempts_other [OF urls_differ])
  qed
  from a b show ?thesis by blast
qed

theorem token_failure_ends_cycle_witness:
  "fst (fetchWithRetry (api_env token_without_signature scenario_content)
          TOKEN_URL get_options PROXY_URL world0)
     = Inr (http_response 200 ''OK'' (JObj [(''timestamp'', JStr ''123'')])) \<and>
   json (http_response 200 ''OK'' (JObj [(''timestamp'', JStr ''123'')]))
     = Inr (JObj [(''timestamp'', JStr ''123'')]) \<and>
   get_property (JObj [(''timestamp'', JStr ''123'')]) ''timestamp'' = Inr (Some (JStr ''123'')) \<and>
   get_property (JObj [(''timestamp'', JStr ''123'')]) ''signature'' = Inr None \<and>
   \<not> truthy None \<and>
   fst (acquireToken (api_env token_without_signature scenario_content) world0)
     = Inl (Error ''Token API did not return timestamp or signature.'') \<and>
   isl (fst (acquireToken (api_env token_without_signature scenario_content) world0)) \<and>
   fetches CONTENT_URL
     (new_events world0
        (runUpdateCycle (api_env token_without_signature scenario_content) world0)) = [] \<and>
   writes
     (new_events world0
        (runUpdateCycle (api_env token_without_signature scenario_content) world0)) = [] \<and>
   files (runUpdateCycle (api_env token_without_signature scenario_content) world0)
     = files world0"
proof -
  have f: "fst (fetchWithRetry (api_env token_without_signature scenario_content)
          TOKEN_URL get_options PROXY_URL world0)
     = Inr (http_response 200 ''OK'' (JObj [(''timestamp'', JStr ''123'')]))"
    by (rule fetchWithRetry_first_try)
       (simp add: attempt_api_token token_without_signature_def check_response_200)
  have g: "get_property (JObj [(''timestamp'', JStr ''123'')]) ''timestamp''
             = Inr (Some (JStr ''123'')) \<and>
           get_property (JObj [(''timestamp'', JStr ''123'')]) ''signature'' = Inr None"
    by simp
  from f g
    token_failure_ends_cycle [of "api_env token_without_signature scenario_content" world0
      "http_response 200 ''OK'' (JObj [(''timestamp'', JStr ''123'')])"
      "JObj [(''timestamp'', JStr ''123'')]" "Some (JStr ''123'')" None]
  show ?thesis
    by (simp add: json_http_response)
qed

section \<open>A failed item writes nothing (C5)\<close>



section \<open>A failed item does not stop the others (C4)\<close>

lemma paths_differ:
  "path_join CACHE_DIR ''upcoming.json'' \<noteq> path_join CACHE_DIR ''live.json''"
  "path_join CACHE_DIR ''upcoming.json'' \<noteq> path_join CACHE_DIR ''completed.json''"
  "path_join CACHE_DIR ''live.json'' \<noteq> path_join CACHE_DIR ''completed.json''"
  by (simp_all add: path_join_def)

lemma cycle_item_files:
  assumes "fst (acquireToken env w) = Inr (ts, sg)"
    and "req \<in> set REQUEST_TYPES"
  shows "files (runUpdateCycle env w) (path_join CACHE_DIR (filename req)) =
           (case item_outcome env (type req) (filename req) ts sg of
              None \<Rightarrow> files w (path_join CACHE_DIR (filename req))
            | Some content \<Rightarrow> Some content) \<and>
         (\<forall>path. path \<notin> (\<lambda>r. path_join CACHE_DIR (filename r)) ` set REQUEST_TYPES
            \<longrightarrow> files (runUpdateCycle env w) path = files w path)"
proof -
  let ?w1 = "snd (fetchWithRetry env TOKEN_URL get_options PROXY_URL
               (assign_lastUpdateTime (toLocaleTimeString env) w))"
  have w1: "files ?w1 = files w"
    by (simp add: fetchWithRetry_files)
  have run: "files (runUpdateCycle env w) =
      files (fetchAndCacheData env ''completed'' ''completed.json'' ts sg
       (fetchAndCacheData env ''live'' ''live.json'' ts sg
         (fetchAndCacheData env ''up'' ''upcoming.json'' ts sg ?w1)))"
    by (simp add: runUpdateCycle_token [OF assms(1)] updateAll_unfold)
  from assms(2) consider "req = \<lparr>type = ''up'', filename = ''upcoming.json'', label = ''Upcoming''\<rparr>"
    | "req = \<lparr>type = ''live'', filename = ''live.json'', label = ''Live''\<rparr>"
    | "req = \<lparr>type = ''completed'', filename = ''completed.json'', label = ''Completed''\<rparr>"
    by (auto simp: REQUEST_TYPES_def)
  then have one: "files (runUpdateCycle env w) (path_join CACHE_DIR (filename req)) =
           (case item_outcome env (type req) (filename req) ts sg of
              None \<Rightarrow> files w (path_join CACHE_DIR (filename req))
            | Some content \<Rightarrow> Some content)"
  proof cases
    case 1
    then show ?thesis
      using paths_differ
      by (simp add: run fetchAndCacheData_files w1 split: option.splits)
  next
    case 2
    then show ?thesis
      using paths_differ
      by (simp add: run fetchAndCacheData_files w1 split: option.splits)
  next
    case 3
    then show ?thesis
      using paths_differ
      by (simp add: run fetchAndCacheData_files w1 split: option.splits)
  qed
  have others: "files (runUpdateCycle env w) path = files w path"
    if "path \<notin> (\<lambda>r. path_join CACHE_DIR (filename r)) ` set REQUEST_TYPES" for path
    using that
    by (simp add: run fetchAndCacheData_files w1 REQUEST_TYPES_def split: option.splits)
  from one others show ?thesis by blast
qed

lemma request_types:
  "\<lparr>type = ''up'', filename = ''upcoming.json'', label = ''Upcoming''\<rparr> \<in> set REQUEST_TYPES"
  "\<lparr>type = ''live'', filename = ''live.json'', label = ''Live''\<rparr> \<in> set REQUEST_TYPES"
  "\<lparr>type = ''completed'', filename = ''completed.json'', label = ''Completed''\<rparr>
     \<in> set REQUEST_TYPES"
  by (simp_all add: REQUEST_TYPES_def)

lemma cache_paths:
  "path_join CACHE_DIR ''upcoming.json'' = ''cache/upcoming.json''"
  "path_join CACHE_DIR ''live.json'' = ''cache/live.json''"
  "path_join CACHE_DIR ''completed.json'' = ''cache/completed.json''"
  by (simp_all add: path_join_def CACHE_DIR_def)

text \<open>
  C4: in a cycle that has its token, the cache file of each of the three types ends up
  with the outcome of its own item alone: the bytes that item decodes when it succeeds,
  the former content when it fails; no other file changes. So a failure for one type
  neither stops the cycle nor keeps the other two from writing their files.
\<close>

theorem item_failure_contained:
  assumes "fst (acquireToken env w) = Inr (ts, sg)"
    and "req \<in> set REQUEST_TYPES"
  shows "files (runUpdateCycle env w) (path_join CACHE_DIR (filename req)) =
           (case item_outcome env (type req) (filename req) ts sg of
              None \<Rightarrow> files w (path_join CACHE_DIR (filename req))
            | Some content \<Rightarrow> Some content) \<and>
         (\<forall>path. path \<notin> (\<lambda>r. path_join CACHE_DIR (filename r)) ` set REQUEST_TYPES
            \<longrightarrow> files (runUpdateCycle env w) path = files w path)"
  using assms by (rule cycle_item_files)

lemma decode_A: "toString_utf8 (Buffer_from_base64 ''QQ=='') = [65]"
  by (simp add: Buffer_from_base64_def unbase64_def toString_utf8_def)

lemma decode_B: "toString_utf8 (Buffer_from_base64 ''Qg=='') = [66]"
  by (simp add: Buffer_from_base64_def unbase64_def toString_utf8_def)

lemma encode_A: "utf8_encode [65] = ''A''"
  by (simp add: utf8_encode_def utf8_encode_cp_def char_of_def bit_Suc_0_iff)

lemma encode_B: "utf8_encode [66] = ''B''"
  by (simp add: utf8_encode_def utf8_encode_cp_def char_of_def bit_Suc_0_iff)

lemma scenario_outcomes:
  "item_outcome scenario_env ''up'' ''upcoming.json'' ts sg = Some ''A''"
  "item_outcome scenario_env ''live'' ''live.json'' ts sg = None"
  "item_outcome scenario_env ''completed'' ''completed.json'' ts sg = Some ''B''"
  by (simp_all add: item_outcome_def scenario_env_def fetchAndDecode_eq api_env_fetch
      urls_differ body_content_options scenario_content_def check_response_200
      check_response_403 decodeData_def json_http_response decode_A decode_B encode_A encode_B
      api_env_fields)

theorem item_failure_contained_witness:
  "fst (acquireToken scenario_env world_cached) = Inr (JStr ''123'', JStr ''abcdef'') \<and>
   \<lparr>type = ''up'', filename = ''upcoming.json'', label = ''Upcoming''\<rparr> \<in> set REQUEST_TYPES \<and>
   \<lparr>type = ''live'', filename = ''live.json'', label = ''Live''\<rparr> \<in> set REQUEST_TYPES \<and>
   \<lparr>type = ''completed'', filename = ''completed.json'', label = ''Completed''\<rparr>
     \<in> set REQUEST_TYPES \<and>
   item_outcome scenario_env ''live'' ''live.json'' (JStr ''123'') (JStr ''abcdef'') = None \<and>
   files world_cached ''cache/upcoming.json'' = None \<and>
   files world_cached ''cache/live.json'' = Some ''old'' \<and>
   files world_cached ''cache/completed.json'' = None \<and>
   files (runUpdateCycle scenario_env world_cached) ''cache/upcoming.json'' = Some ''A'' \<and>
   files (runUpdateCycle scenario_env world_cached) ''cache/live.json'' = Some ''old'' \<and>
   files (runUpdateCycle scenario_env world_cached) ''cache/completed.json'' = Some ''B''"
proof -
  have tok: "fst (acquireToken scenario_env world_cached) = Inr (JStr ''123'', JStr ''abcdef'')"
    unfolding scenario_env_def by (rule scenario_acquireToken)
  from item_failure_contained [OF tok request_types(1)]
    item_failure_contained [OF tok request_types(2)]
    item_failure_contained [OF tok request_types(3)]
    tok request_types
  show ?thesis
    by (simp add: scenario_outcomes cache_paths world_cached_def)
qed

section \<open>Base64: decoding what was encoded\<close>

lemma of_char_b64char:
  "n < 64 \<Longrightarrow> (of_char (b64char n) :: nat) =
     (if n < 26 then 65 + n else if n < 52 then 71 + n else if n < 62 then n - 4
      else if n = 62 then 43 else 47)"
  by (simp add: b64char_def)

lemma unbase64_b64char: "n < 64 \<Longrightarrow> unbase64 (b64char n) = Some n"
  by (auto simp: unbase64_def Let_def of_char_b64char)

lemma b64char_not_pad: "n < 64 \<Longrightarrow> b64char n \<noteq> CHR ''=''"
proof
  assume n: "n < 64" and "b64char n = CHR ''=''"
  then have "(of_char (b64char n) :: nat) = of_char CHR ''=''" by simp
  with n show False by (simp add: of_char_b64char split: if_splits)
qed

lemma sextets_b64char:
  "n < 64 \<Longrightarrow> sextets (b64char n # s) = n # sextets s"
  by (simp add: unbase64_b64char b64char_not_pad)

lemma sextets_pad: "sextets (CHR ''='' # s) = []"
  by simp

lemma sextet_bounds:
  assumes "a < (256::nat)" "b < (256::nat)" "c < (256::nat)"
  shows "a div 4 < 64 \<and> (a mod 4) * 16 + b div 16 < 64 \<and> (a mod 4) * 16 < 64 \<and>
         (b mod 16) * 4 + c div 64 < 64 \<and> (b mod 16) * 4 < 64 \<and> c mod 64 < 64"
proof -
  have a4: "a mod 4 < 4" by simp
  have b16: "b div 16 < 16" using assms by simp
  have bm: "b mod 16 < 16" by simp
  have c64: "c div 64 < 4" using assms by simp
  have "a div 4 < 64" using assms by simp
  moreover from a4 b16 have "(a mod 4) * 16 + b div 16 < 64" by linarith
  moreover from a4 have "(a mod 4) * 16 < 64" by linarith
  moreover from bm c64 have "(b mod 16) * 4 + c div 64 < 64" by linarith
  moreover from bm have "(b mod 16) * 4 < 64" by linarith
  moreover have "c mod 64 < 64" by simp
  ultimately show ?thesis by blast
qed

lemma group_first:
  assumes "b < (256::nat)"
  shows "(a div 4) * 4 + ((a mod 4) * 16 + b div 16) div 16 = a"
proof -
  have "b div 16 < 16" using assms by simp
  then have "((a mod 4) * 16 + b div 16) div 16 = a mod 4" by simp
  then show ?thesis by simp
qed

lemma group_second:
  assumes "b < (256::nat)" "c < (256::nat)"
  shows "(((a mod 4) * 16 + b div 16) mod 16) * 16 + ((b mod 16) * 4 + c div 64) div 4 = b"
proof -
  have "b div 16 < 16" using assms by simp
  then have x: "b div 16 mod 16 = b div 16" by simp
  have "c div 64 < 4" using assms by simp
  then have y: "((b mod 16) * 4 + c div 64) div 4 = b mod 16" by simp
  show ?thesis by (simp add: x y)
qed

lemma group_second_tail:
  assumes "b < (256::nat)"
  shows "(((a mod 4) * 16 + b div 16) mod 16) * 16 + ((b mod 16) * 4) div 4 = b"
proof -
  have "b div 16 < 16" using assms by simp
  then have x: "b div 16 mod 16 = b div 16" by simp
  show ?thesis by (simp add: x)
qed

lemma group_third:
  assumes "c < (256::nat)"
  shows "(((b mod 16) * 4 + c div 64) mod 4) * 64 + c mod 64 = c"
proof -
  have "c div 64 < 4" using assms by simp
  then have "c div 64 mod 4 = c div 64" by simp
  then show ?thesis by simp
qed

lemma from_sextets_group:
  assumes "b < (256::nat)" "c < (256::nat)"
  shows "from_sextets (a div 4 # ((a mod 4) * 16 + b div 16) # ((b mod 16) * 4 + c div 64)
           # c mod 64 # vs) = a # b # c # from_sextets vs"
  by (simp only: from_sextets.simps group_first [OF assms(1)] group_second [OF assms]
      group_third [OF assms(2)] append_Cons append_Nil)

lemma from_sextets_two:
  assumes "b < (256::nat)"
  shows "from_sextets [a div 4, (a mod 4) * 16 + b div 16, (b mod 16) * 4] = [a, b]"
  by (simp only: from_sextets.simps group_first [OF assms] group_second_tail [OF assms])

lemma from_sextets_one: "from_sextets [a div 4, (a mod 4) * 16] = [a]"
  by simp

lemma decode_encode_bytes:
  "\<forall>b \<in> set bs. b < 256 \<Longrightarrow> from_sextets (sextets (base64_encode_bytes bs)) = bs"
proof (induction bs rule: base64_encode_bytes.induct)
  case (1 a b c bs)
  then have lt: "a < 256" "b < 256" "c < 256" by simp_all
  have s: "sextets (base64_encode_bytes (a # b # c # bs)) =
      a div 4 # ((a mod 4) * 16 + b div 16) # ((b mod 16) * 4 + c div 64) # c mod 64
        # sextets (base64_encode_bytes bs)"
    using sextet_bounds [OF lt] by (simp add: sextets_b64char sextets_pad del: sextets.simps)
  have "from_sextets (sextets (base64_encode_bytes bs)) = bs"
    using 1 by simp
  then show ?case
    unfolding s by (simp only: from_sextets_group [OF lt(2,3)])
next
  case (2 a b)
  then have lt: "a < 256" "b < 256" by simp_all
  have s: "sextets (base64_encode_bytes [a, b]) =
      [a div 4, (a mod 4) * 16 + b div 16, (b mod 16) * 4]"
    using sextet_bounds [OF lt lt(2)]
    by (simp add: sextets_b64char sextets_pad del: sextets.simps)
  show ?case
    unfolding s by (rule from_sextets_two [OF lt(2)])
next
  case (3 a)
  then have lt: "a < 256" by simp
  have s: "sextets (base64_encode_bytes [a]) = [a div 4, (a mod 4) * 16]"
    using sextet_bounds [OF lt lt lt]
    by (simp add: sextets_b64char sextets_pad del: sextets.simps)
  show ?case
    unfolding s by (rule from_sextets_one)
next
  case 4
  show ?case by simp
qed

lemma Buffer_from_base64_encode: "Buffer_from_base64 (base64_encode s) = s"
proof -
  have "\<forall>b \<in> set (map of_char s :: nat list). b < 256" by simp
  then have "from_sextets (sextets (base64_encode_bytes (map of_char s))) = map of_char s"
    by (rule decode_encode_bytes)
  then show ?thesis
    by (simp add: Buffer_from_base64_def base64_encode_def comp_def)
qed

section \<open>UTF-8: decoding what was encoded\<close>

lemma decode_one: "b < 128 \<Longrightarrow> utf8_decode (b # rest) = b # utf8_decode rest"
  by simp

lemma decode_two:
  "194 \<le> b \<Longrightarrow> b \<le> 223 \<Longrightarrow> continuation c \<Longrightarrow>
   utf8_decode (b # c # rest) = ((b - 192) * 64 + (c - 128)) # utf8_decode rest"
  by simp

lemma decode_three:
  "224 \<le> b \<Longrightarrow> b \<le> 239 \<Longrightarrow> second_of3 b c \<Longrightarrow> continuation d \<Longrightarrow>
   utf8_decode (b # c # d # rest) =
     ((b - 224) * 4096 + (c - 128) * 64 + (d - 128)) # utf8_decode rest"
  by simp

lemma decode_four:
  "240 \<le> b \<Longrightarrow> b \<le> 244 \<Longrightarrow> second_of4 b c \<Longrightarrow> continuation d \<Longrightarrow> continuation e \<Longrightarrow>
   utf8_decode (b # c # d # e # rest) =
     ((b - 240) * 262144 + (c - 128) * 4096 + (d - 128) * 64 + (e - 128)) # utf8_decode rest"
  by simp

lemma continuation_mod: "continuation (128 + n mod 64)"
proof -
  have "n mod 64 < 64" by simp
  then show ?thesis unfolding continuation_def by linarith
qed

lemma div4096: "(n::nat) div 4096 = n div 64 div 64"
  by (simp add: div_mult2_eq [symmetric])

lemma div262144: "(n::nat) div 262144 = n div 64 div 64 div 64"
  by (simp add: div_mult2_eq [symmetric])

lemma encode_decode_two:
  assumes "128 \<le> cp" "cp < 2048"
  shows "utf8_decode ([192 + cp div 64, 128 + cp mod 64] @ rest) = cp # utf8_decode rest"
proof -
  define k where "k = cp div 64"
  define m where "m = cp mod 64"
  have cp: "cp = 64 * k + m" unfolding k_def m_def by simp
  have m: "m < 64" unfolding m_def by simp
  from cp m assms have k: "2 \<le> k" "k < 32" by linarith+
  have bytes: "[192 + cp div 64, 128 + cp mod 64] @ rest = (192 + k) # (128 + m) # rest"
    by (simp add: k_def m_def)
  have dec: "utf8_decode ((192 + k) # (128 + m) # rest) =
          ((192 + k - 192) * 64 + (128 + m - 128)) # utf8_decode rest"
    using k continuation_mod [of cp] by (intro decode_two) (simp_all add: m_def)
  have val: "(192 + k - 192) * 64 + (128 + m - 128) = cp"
    using cp by linarith
  show ?thesis unfolding bytes dec val by (rule refl)
qed

lemma encode_decode_three:
  assumes "2048 \<le> cp" "cp < 65536" "\<not> (55296 \<le> cp \<and> cp \<le> 57343)"
  shows "utf8_decode ([224 + cp div 4096, 128 + (cp div 64) mod 64, 128 + cp mod 64] @ rest)
           = cp # utf8_decode rest"
proof -
  define k1 where "k1 = cp div 64"
  define m0 where "m0 = cp mod 64"
  define k2 where "k2 = k1 div 64"
  define m1 where "m1 = k1 mod 64"
  have cp: "cp = 64 * k1 + m0" unfolding k1_def m0_def by simp
  have k1: "k1 = 64 * k2 + m1" unfolding k2_def m1_def by simp
  have m: "m0 < 64" "m1 < 64" unfolding m0_def m1_def by simp_all
  have q: "cp div 4096 = k2" unfolding k2_def k1_def by (rule div4096)
  from cp k1 m assms have k2: "k2 \<le> 15" by linarith
  have s: "second_of3 (224 + k2) (128 + m1)"
  proof -
    have "160 \<le> 128 + m1" if "k2 = 0"
      using that cp k1 m assms by linarith
    moreover have "128 + m1 \<le> 159" if "k2 = 13"
      using that cp k1 m assms by linarith
    moreover have "continuation (128 + m1)"
      unfolding m1_def by (rule continuation_mod)
    ultimately show ?thesis
      using m by (simp add: second_of3_def)
  qed
  have bytes: "[224 + cp div 4096, 128 + (cp div 64) mod 64, 128 + cp mod 64] @ rest =
      (224 + k2) # (128 + m1) # (128 + m0) # rest"
    by (simp add: q) (simp add: m1_def k1_def m0_def)
  have dec: "utf8_decode ((224 + k2) # (128 + m1) # (128 + m0) # rest) =
          ((224 + k2 - 224) * 4096 + (128 + m1 - 128) * 64 + (128 + m0 - 128))
            # utf8_decode rest"
    using k2 s continuation_mod [of cp] by (intro decode_three) (simp_all add: m0_def)
  have val: "(224 + k2 - 224) * 4096 + (128 + m1 - 128) * 64 + (128 + m0 - 128) = cp"
    using cp k1 by linarith
  show ?thesis unfolding bytes dec val by (rule refl)
qed

lemma encode_decode_four:
  assumes "65536 \<le> cp" "cp < 1114112"
  shows "utf8_decode ([240 + cp div 262144, 128 + (cp div 4096) mod 64,
                        128 + (cp div 64) mod 64, 128 + cp mod 64] @ rest)
           = cp # utf8_decode rest"
proof -
  define k1 where "k1 = cp div 64"
  define m0 where "m0 = cp mod 64"
  define k2 where "k2 = k1 div 64"
  define m1 where "m1 = k1 mod 64"
  define k3 where "k3 = k2 div 64"
  define m2 where "m2 = k2 mod 64"
  have cp: "cp = 64 * k1 + m0" unfolding k1_def m0_def by simp
  have k1: "k1 = 64 * k2 + m1" unfolding k2_def m1_def by simp
  have k2: "k2 = 64 * k3 + m2" unfolding k3_def m2_def by simp
  have m: "m0 < 64" "m1 < 64" "m2 < 64" unfolding m0_def m1_def m2_def by simp_all
  have q2: "cp div 4096 = k2" unfolding k2_def k1_def by (rule div4096)
  have q3: "cp div 262144 = k3" unfolding k3_def k2_def k1_def by (rule div262144)
  from cp k1 k2 m assms have k3: "k3 \<le> 4" by linarith
  have s: "second_of4 (240 + k3) (128 + m2)"
  proof -
    have "144 \<le> 128 + m2" if "k3 = 0"
      using that cp k1 k2 m assms by linarith
    moreover have "128 + m2 \<le> 143" if "k3 = 4"
      using that cp k1 k2 m assms by linarith
    moreover have "continuation (128 + m2)"
      unfolding m2_def by (rule continuation_mod)
    ultimately show ?thesis
      using m by (simp add: second_of4_def)
  qed
  have bytes: "[240 + cp div 262144, 128 + (cp div 4096) mod 64,
                        128 + (cp div 64) mod 64, 128 + cp mod 64] @ rest =
      (240 + k3) # (128 + m2) # (128 + m1) # (128 + m0) # rest"
    by (simp add: q2 q3) (simp add: m2_def m1_def k1_def m0_def)
  have dec: "utf8_decode ((240 + k3) # (128 + m2) # (128 + m1) # (128 + m0) # rest) =
          ((240 + k3 - 240) * 262144 + (128 + m2 - 128) * 4096 + (128 + m1 - 128) * 64
             + (128 + m0 - 128)) # utf8_decode rest"
    using k3 s continuation_mod [of cp] continuation_mod [of k1]
    by (intro decode_four) (simp_all add: m0_def m1_def)
  have val: "(240 + k3 - 240) * 262144 + (128 + m2 - 128) * 4096 + (128 + m1 - 128) * 64
             + (128 + m0 - 128) = cp"
    using cp k1 k2 by linarith
  show ?thesis unfolding bytes dec val by (rule refl)
qed

lemma utf8_encode_cp_decode:
  assumes "scalar_value cp"
  shows "utf8_decode (utf8_encode_cp cp @ rest) = cp # utf8_decode rest"
proof -
  consider "cp < 128" | "128 \<le> cp" "cp < 2048"
    | "2048 \<le> cp" "cp < 65536" | "65536 \<le> cp"
    by linarith
  then show ?thesis
  proof cases
    case 1
    then show ?thesis by (simp add: utf8_encode_cp_def)
  next
    case 2
    then have e: "utf8_encode_cp cp = [192 + cp div 64, 128 + cp mod 64]"
      by (simp add: utf8_encode_cp_def)
    show ?thesis unfolding e by (rule encode_decode_two [OF 2])
  next
    case 3
    with assms have ns: "\<not> (55296 \<le> cp \<and> cp \<le> 57343)"
      unfolding scalar_value_def by linarith
    with 3 have e: "utf8_encode_cp cp =
        [224 + cp div 4096, 128 + (cp div 64) mod 64, 128 + cp mod 64]"
      by (auto simp: utf8_encode_cp_def)
    show ?thesis unfolding e by (rule encode_decode_three [OF 3 ns])
  next
    case 4
    with assms have lt: "cp < 1114112" unfolding scalar_value_def by linarith
    with 4 have e: "utf8_encode_cp cp =
        [240 + cp div 262144, 128 + (cp div 4096) mod 64, 128 + (cp div 64) mod 64,
         128 + cp mod 64]"
      by (simp add: utf8_encode_cp_def)
    show ?thesis unfolding e by (rule encode_decode_four [OF 4 lt])
  qed
qed

lemma utf8_decode_encode:
  "\<forall>cp \<in> set T. scalar_value cp \<Longrightarrow> utf8_decode (concat (map utf8_encode_cp T)) = T"
proof (induction T)
  case Nil
  show ?case by simp
next
  case (Cons cp T)
  then have "utf8_decode (utf8_encode_cp cp @ concat (map utf8_encode_cp T)) =
      cp # utf8_decode (concat (map utf8_encode_cp T))"
    by (intro utf8_encode_cp_decode) simp
  with Cons show ?case by simp
qed

lemma utf8_encode_cp_bytes: "b \<in> set (utf8_encode_cp cp) \<Longrightarrow> b < 256"
proof -
  have m: "cp mod 64 < 64" "cp div 64 mod 64 < 64" "cp div 4096 mod 64 < 64" by simp_all
  have a: "cp div 64 < 32" if "cp < 2048" using that by simp
  have b: "cp div 4096 < 16" if "cp < 65536" using that by simp
  have c: "cp div 262144 < 5" if "cp < 1114112" using that by simp
  assume "b \<in> set (utf8_encode_cp cp)"
  then show ?thesis
    using m a b c by (auto simp: utf8_encode_cp_def split: if_splits)
qed

lemma of_char_utf8_encode:
  "map of_char (utf8_encode T) = concat (map utf8_encode_cp T)"
proof -
  have "map (\<lambda>b. of_char (char_of b) :: nat) (concat (map utf8_encode_cp T)) =
      concat (map utf8_encode_cp T)"
    by (intro map_idI) (auto dest: utf8_encode_cp_bytes)
  then show ?thesis by (simp add: utf8_encode_def comp_def)
qed

lemma toString_utf8_encode:
  "\<forall>cp \<in> set T. scalar_value cp \<Longrightarrow> toString_utf8 (utf8_encode T) = T"
  by (simp add: toString_utf8_def of_char_utf8_encode utf8_decode_encode)

lemma decode_step_round_trip:
  "\<forall>cp \<in> set T. scalar_value cp \<Longrightarrow>
   toString_utf8 (Buffer_from_base64 (base64_encode (utf8_encode T))) = T"
  by (simp add: Buffer_from_base64_encode toString_utf8_encode)

section \<open>The round trip (C8)\<close>

lemma item_outcome_decoded:
  assumes "fst (fetchWithRetry env CONTENT_URL (content_options ty ts sg) PROXY_URL w)
             = Inr response"
    and "decodeData env ty response = Inr decoded"
    and "writeFile_error env (path_join CACHE_DIR fn) = None"
  shows "item_outcome env ty fn ts sg = Some (utf8_encode decoded)"
proof -
  have "fst (fetchWithRetry env CONTENT_URL (content_options ty ts sg) PROXY_URL world0)
          = Inr response"
    using assms(1)
      fetchWithRetry_fst_world [of env CONTENT_URL "content_options ty ts sg" PROXY_URL world0 w]
    by simp
  with assms(2,3) show ?thesis
    by (simp add: item_outcome_def fetchAndDecode_eq)
qed

lemma decodeData_string:
  assumes "json response = Inr rawJson"
    and "get_property rawJson ''data'' = Inr (Some (JStr s))" and "s \<noteq> []"
  shows "decodeData env ty response = Inr (toString_utf8 (Buffer_from_base64 s))"
  using assms by (simp add: decodeData_def)

lemma utf8_encode_nonempty: "T \<noteq> [] \<Longrightarrow> utf8_encode T \<noteq> []"
  by (cases T) (simp_all add: utf8_encode_def utf8_encode_cp_def)

lemma base64_encode_nonempty: "s \<noteq> [] \<Longrightarrow> base64_encode s \<noteq> []"
proof -
  assume "s \<noteq> []"
  then have "map of_char s \<noteq> ([] :: nat list)" by simp
  then have "base64_encode_bytes (map of_char s) \<noteq> []"
    by (cases "map of_char s :: nat list" rule: base64_encode_bytes.cases) simp_all
  then show ?thesis by (simp add: base64_encode_def)
qed

lemma decodeData_encoded:
  assumes "T \<noteq> []" and "\<forall>cp \<in> set T. scalar_value cp"
    and "json response = Inr rawJson"
    and "get_property rawJson ''data'' = Inr (Some (JStr (base64_encode (utf8_encode T))))"
  shows "decodeData env ty response = Inr T"
proof -
  have "base64_encode (utf8_encode T) \<noteq> []"
    using assms(1) by (intro base64_encode_nonempty utf8_encode_nonempty)
  with assms(3,4) have "decodeData env ty response =
      Inr (toString_utf8 (Buffer_from_base64 (base64_encode (utf8_encode T))))"
    by (rule decodeData_string)
  with assms(2) show ?thesis by (simp only: decode_step_round_trip)
qed

lemma fetchAndCacheData_written:
  assumes "fst (fetchWithRetry env CONTENT_URL (content_options ty ts sg) PROXY_URL w)
             = Inr response"
    and "decodeData env ty response = Inr decoded"
  shows "writes (new_events w (fetchAndCacheData env ty fn ts sg w)) =
           [(path_join CACHE_DIR fn, utf8_encode decoded)]"
proof -
  have "fst (fetchAndDecode env ty ts sg w) = Inr decoded"
    using assms by (simp add: fetchAndDecode_eq)
  then show ?thesis
    by (simp add: fetchAndCacheData_events writes_append writes_attempts)
qed

lemma fetchAndCacheData_not_written:
  assumes "fst (fetchWithRetry env CONTENT_URL (content_options ty ts sg) PROXY_URL w)
             = Inr response"
    and "decodeData env ty response = Inl e"
  shows "writes (new_events w (fetchAndCacheData env ty fn ts sg w)) = []"
    and "files (fetchAndCacheData env ty fn ts sg w) = files w"
proof -
  have d: "fst (fetchAndDecode env ty ts sg w) = Inl e"
    using assms by (simp add: fetchAndDecode_eq)
  then show "writes (new_events w (fetchAndCacheData env ty fn ts sg w)) = []"
    by (simp add: fetchAndCacheData_events writes_attempts)
  show "files (fetchAndCacheData env ty fn ts sg w) = files w"
    by (simp add: fetchAndCacheData_failed [OF d] fetchWithRetry_files)
qed

lemma constant_env_fields:
  "writeFile_error (constant_env r) path = None"
  "Buffer_from_object (constant_env r) = node_from_object"
  by (simp_all add: constant_env_def api_env_fields)

text \<open>
  C8 as stated fails, for two kinds of text. The empty text is encoded as the empty
  string, which the program takes for missing data: it throws and writes nothing. A
  text with a lone surrogate is encoded as that of U+FFFD, and is decoded as U+FFFD.
\<close>

theorem empty_text_counterexample:
  "base64_encode (utf8_encode []) = [] \<and>
   decodeData (constant_env (encoded_data [])) ''up''
       (http_response 200 ''OK'' (JObj [(''data'', JStr (base64_encode (utf8_encode [])))]))
     = Inl (Error ''Data field missing in response for type: up'') \<and>
   decodeData (constant_env (encoded_data [])) ''up''
       (http_response 200 ''OK'' (JObj [(''data'', JStr (base64_encode (utf8_encode [])))]))
     \<noteq> Inr [] \<and>
   fst (fetchWithRetry (constant_env (encoded_data [])) CONTENT_URL
          (content_options ''up'' (JStr ''123'') (JStr ''abcdef'')) PROXY_URL world0)
     = Inr (http_response 200 ''OK'' (JObj [(''data'', JStr (base64_encode (utf8_encode [])))])) \<and>
   writes (new_events world0
     (fetchAndCacheData (constant_env (encoded_data [])) ''up'' ''upcoming.json''
        (JStr ''123'') (JStr ''abcdef'') world0)) = [] \<and>
   files (fetchAndCacheData (constant_env (encoded_data [])) ''up'' ''upcoming.json''
        (JStr ''123'') (JStr ''abcdef'') world0) ''cache/upcoming.json'' = None \<and>
   \<not> scalar_value 55296 \<and>
   base64_encode (utf8_encode [55296]) = ''77+9'' \<and>
   decodeData (constant_env (encoded_data [55296])) ''up''
       (http_response 200 ''OK'' (JObj [(''data'', JStr (base64_encode (utf8_encode [55296])))]))
     = Inr [65533]"
proof -
  have e: "base64_encode (utf8_encode []) = []"
    by (simp add: base64_encode_def utf8_encode_def)
  have d: "decodeData (constant_env (encoded_data [])) ''up''
       (http_response 200 ''OK'' (JObj [(''data'', JStr (base64_encode (utf8_encode [])))]))
     = Inl (Error ''Data field missing in response for type: up'')"
    by (simp add: e decodeData_def json_http_response)
  have f: "fst (fetchWithRetry (constant_env (encoded_data [])) CONTENT_URL
          (content_options ''up'' (JStr ''123'') (JStr ''abcdef'')) PROXY_URL world0)
     = Inr (http_response 200 ''OK'' (JObj [(''data'', JStr (base64_encode (utf8_encode [])))]))"
    by (simp add: constant_env_fetch encoded_data_def check_response_200)
  have w: "files world0 ''cache/upcoming.json'' = None"
    by (simp add: world0_def)
  have s: "base64_encode (utf8_encode [55296]) = ''77+9''"
    by (simp add: base64_encode_def utf8_encode_def utf8_encode_cp_def b64char_def
        char_of_def bit_Suc_0_iff)
  have r: "toString_utf8 (Buffer_from_base64 ''77+9'') = [65533]"
    by (simp add: Buffer_from_base64_def unbase64_def toString_utf8_def continuation_def
        second_of3_def)
  have d2: "decodeData (constant_env (encoded_data [55296])) ''up''
       (http_response 200 ''OK'' (JObj [(''data'', JStr (base64_encode (utf8_encode [55296])))]))
     = Inr [65533]"
    unfolding s using r by (simp add: decodeData_def json_http_response)
  from e d f s d2 fetchAndCacheData_not_written [OF f d, of "''upcoming.json''"] w
  show ?thesis
    by (simp add: scalar_value_def)
qed

text \<open>
  C8, as the code has it: for every text \<open>T\<close> of Unicode scalar values that is not
  empty, a content response whose \<open>data\<close> is the base64 of the UTF-8 encoding of
  \<open>T\<close> is decoded by the program to exactly \<open>T\<close>, and \<open>fetchAndCacheData\<close>,
  when the request and the write succeed, writes the UTF-8 encoding of \<open>T\<close> and leaves
  it in the file. The two calls \<open>Buffer.from(.., 'base64').toString('utf8')\<close> alone give
  back every text of scalar values, the empty one too. The base64 of \<open>A\<close> is
  \<open>QQ==\<close>; and in a cycle that has its token, a content response
  \<open>{data: "QQ=="}\<close> for type \<open>up\<close>, written without error, leaves exactly
  \<open>A\<close> in \<open>upcoming.json\<close>.
\<close>

theorem base64_round_trip:
  "(T \<noteq> [] \<and> (\<forall>cp \<in> set T. scalar_value cp) \<and>
    json response = Inr rawJson \<and>
    get_property rawJson ''data'' = Inr (Some (JStr (base64_encode (utf8_encode T))))
      \<longrightarrow> decodeData env ty response = Inr T) \<and>
   (T \<noteq> [] \<and> (\<forall>cp \<in> set T. scalar_value cp) \<and>
    fst (fetchWithRetry env CONTENT_URL (content_options ty ts sg) PROXY_URL w)
      = Inr response \<and>
    json response = Inr rawJson \<and>
    get_property rawJson ''data'' = Inr (Some (JStr (base64_encode (utf8_encode T)))) \<and>
    writeFile_error env (path_join CACHE_DIR fn) = None
      \<longrightarrow> writes (new_events w (fetchAndCacheData env ty fn ts sg w)) =
            [(path_join CACHE_DIR fn, utf8_encode T)] \<and>
          files (fetchAndCacheData env ty fn ts sg w) (path_join CACHE_DIR fn) =
            Some (utf8_encode T)) \<and>
   ((\<forall>cp \<in> set T. scalar_value cp)
      \<longrightarrow> toString_utf8 (Buffer_from_base64 (base64_encode (utf8_encode T))) = T) \<and>
   base64_encode (utf8_encode [65]) = ''QQ=='' \<and>
   (fst (acquireToken env w) = Inr (ts, sg) \<and>
    fst (fetchWithRetry env CONTENT_URL (content_options ''up'' ts sg) PROXY_URL w)
      = Inr response \<and>
    json response = Inr (JObj [(''data'', JStr ''QQ=='')]) \<and>
    writeFile_error env ''cache/upcoming.json'' = None
      \<longrightarrow> files (runUpdateCycle env w) ''cache/upcoming.json'' = Some ''A'')"
proof -
  have enc: "base64_encode (utf8_encode [65]) = ''QQ==''"
    by (simp add: encode_A base64_encode_def b64char_def char_of_def bit_Suc_0_iff)
  have e2e: "files (runUpdateCycle env w) ''cache/upcoming.json'' = Some ''A''"
    if tok: "fst (acquireToken env w) = Inr (ts, sg)"
      and f: "fst (fetchWithRetry env CONTENT_URL (content_options ''up'' ts sg) PROXY_URL w)
                = Inr response"
      and j: "json response = Inr (JObj [(''data'', JStr ''QQ=='')])"
      and wr: "writeFile_error env ''cache/upcoming.json'' = None"
  proof -
    have "decodeData env ''up'' response = Inr (toString_utf8 (Buffer_from_base64 ''QQ==''))"
      using j decodeData_string [of response "JObj [(''data'', JStr ''QQ=='')]" "''QQ==''"]
      by simp
    then have "decodeData env ''up'' response = Inr [65]"
      by (simp only: decode_A)
    with f wr have "item_outcome env ''up'' ''upcoming.json'' ts sg = Some (utf8_encode [65])"
      by (intro item_outcome_decoded) (simp_all add: cache_paths)
    with cycle_item_files [OF tok request_types(1)] show ?thesis
      by (simp add: cache_paths encode_A)
  qed
  have dec: "decodeData env ty response = Inr T"
    if "T \<noteq> []" "\<forall>cp \<in> set T. scalar_value cp" "json response = Inr rawJson"
      "get_property rawJson ''data'' = Inr (Some (JStr (base64_encode (utf8_encode T))))"
    using that by (rule decodeData_encoded)
  have wrt: "writes (new_events w (fetchAndCacheData env ty fn ts sg w)) =
            [(path_join CACHE_DIR fn, utf8_encode T)] \<and>
          files (fetchAndCacheData env ty fn ts sg w) (path_join CACHE_DIR fn) =
            Some (utf8_encode T)"
    if t: "T \<noteq> []" "\<forall>cp \<in> set T. scalar_value cp"
      and f: "fst (fetchWithRetry env CONTENT_URL (content_options ty ts sg) PROXY_URL w)
                = Inr response"
      and j: "json response = Inr rawJson"
        "get_property rawJson ''data'' = Inr (Some (JStr (base64_encode (utf8_encode T))))"
      and wr: "writeFile_error env (path_join CACHE_DIR fn) = None"
  proof -
    have d: "decodeData env ty response = Inr T"
      using t j by (rule decodeData_encoded)
    have "item_outcome env ty fn ts sg = Some (utf8_encode T)"
      using f d wr by (rule item_outcome_decoded)
    then have "files (fetchAndCacheData env ty fn ts sg w) (path_join CACHE_DIR fn) =
        Some (utf8_encode T)"
      by (simp add: fetchAndCacheData_files)
    with fetchAndCacheData_written [OF f d, of fn] show ?thesis by simp
  qed
  from enc e2e dec wrt decode_step_round_trip [of T] show ?thesis by blast
qed

theorem base64_round_trip_witness:
  "[72, 233, 8364, 128512] \<noteq> ([] :: nat list) \<and>
   scalar_value 72 \<and> scalar_value 233 \<and> scalar_value 8364 \<and> scalar_value 128512 \<and>
   utf8_encode [72, 233, 8364, 128512] =
     map char_of [72, 195, 169, 226, 130, 172, 240, 159, 152, 128 :: nat] \<and>
   base64_encode (utf8_encode [72, 233, 8364, 128512]) = ''SMOp4oKs8J+YgA=='' \<and>
   fst (fetchWithRetry (constant_env (encoded_data [72, 233, 8364, 128512])) CONTENT_URL
          (content_options ''live'' (JStr ''123'') (JStr ''abcdef'')) PROXY_URL world_cached)
     = Inr (http_response 200 ''OK'' (JObj [(''data'', JStr ''SMOp4oKs8J+YgA=='')])) \<and>
   json (http_response 200 ''OK'' (JObj [(''data'', JStr ''SMOp4oKs8J+YgA=='')]))
     = Inr (JObj [(''data'', JStr ''SMOp4oKs8J+YgA=='')]) \<and>
   get_property (JObj [(''data'', JStr ''SMOp4oKs8J+YgA=='')]) ''data''
     = Inr (Some (JStr ''SMOp4oKs8J+YgA=='')) \<and>
   writeFile_error (constant_env (encoded_data [72, 233, 8364, 128512]))
     (path_join CACHE_DIR ''live.json'') = None \<and>
   decodeData (constant_env (encoded_data [72, 233, 8364, 128512])) ''live''
       (http_response 200 ''OK'' (JObj [(''data'', JStr ''SMOp4oKs8J+YgA=='')]))
     = Inr [72, 233, 8364, 128512] \<and>
   files world_cached ''cache/live.json'' = Some ''old'' \<and>
   writes (new_events world_cached
     (fetchAndCacheData (constant_env (encoded_data [72, 233, 8364, 128512])) ''live''
        ''live.json'' (JStr ''123'') (JStr ''abcdef'') world_cached)) =
     [(''cache/live.json'',
       map char_of [72, 195, 169, 226, 130, 172, 240, 159, 152, 128 :: nat])] \<and>
   files (fetchAndCacheData (constant_env (encoded_data [72, 233, 8364, 128512])) ''live''
        ''live.json'' (JStr ''123'') (JStr ''abcdef'') world_cached) ''cache/live.json'' =
     Some (map char_of [72, 195, 169, 226, 130, 172, 240, 159, 152, 128 :: nat]) \<and>
   toString_utf8 (Buffer_from_base64 (base64_encode (utf8_encode [72, 233, 8364, 128512])))
     = [72, 233, 8364, 128512] \<and>
   fst (acquireToken scenario_env world0) = Inr (JStr ''123'', JStr ''abcdef'') \<and>
   fst (fetchWithRetry scenario_env CONTENT_URL
          (content_options ''up'' (JStr ''123'') (JStr ''abcdef'')) PROXY_URL world0)
     = Inr (http_response 200 ''OK'' (JObj [(''data'', JStr ''QQ=='')])) \<and>
   json (http_response 200 ''OK'' (JObj [(''data'', JStr ''QQ=='')]))
     = Inr (JObj [(''data'', JStr ''QQ=='')]) \<and>
   writeFile_error scenario_env ''cache/upcoming.json'' = None \<and>
   files (runUpdateCycle scenario_env world0) ''cache/upcoming.json'' = Some ''A''"
proof -
  let ?T = "[72, 233, 8364, 128512] :: nat list"
  let ?r = "http_response 200 ''OK'' (JObj [(''data'', JStr ''SMOp4oKs8J+YgA=='')])"
  have s: "\<forall>cp \<in> set ?T. scalar_value cp"
    by (simp add: scalar_value_def)
  have e: "utf8_encode ?T =
     map char_of [72, 195, 169, 226, 130, 172, 240, 159, 152, 128 :: nat]"
    by (simp add: utf8_encode_def utf8_encode_cp_def)
  have b: "base64_encode (map char_of [72, 195, 169, 226, 130, 172, 240, 159, 152, 128 :: nat])
      = ''SMOp4oKs8J+YgA==''"
    by (simp add: base64_encode_def b64char_def char_of_def bit_Suc_0_iff)
  have eb: "base64_encode (utf8_encode ?T) = ''SMOp4oKs8J+YgA==''"
    unfolding e by (rule b)
  have f1: "fst (fetchWithRetry (constant_env (encoded_data ?T)) CONTENT_URL
          (content_options ''live'' (JStr ''123'') (JStr ''abcdef'')) PROXY_URL world_cached)
     = Inr ?r"
    by (simp only: constant_env_fetch encoded_data_def eb check_response_200) simp
  have g: "get_property (JObj [(''data'', JStr ''SMOp4oKs8J+YgA=='')]) ''data''
     = Inr (Some (JStr (base64_encode (utf8_encode ?T))))"
    unfolding eb by simp
  have tok: "fst (acquireToken scenario_env world0) = Inr (JStr ''123'', JStr ''abcdef'')"
    unfolding scenario_env_def by (rule scenario_acquireToken)
  have f: "fst (fetchWithRetry scenario_env CONTENT_URL
          (content_options ''up'' (JStr ''123'') (JStr ''abcdef'')) PROXY_URL world0)
     = Inr (http_response 200 ''OK'' (JObj [(''data'', JStr ''QQ=='')]))"
    by (simp add: scenario_env_def api_env_fetch urls_differ body_content_options
        scenario_content_def check_response_200)
  have c: "files world_cached ''cache/live.json'' = Some ''old''"
    by (simp add: world_cached_def)
  have n: "?T \<noteq> []" by simp
  have wr: "writeFile_error (constant_env (encoded_data ?T)) (path_join CACHE_DIR ''live.json'')
      = None"
    by (rule constant_env_fields)
  have j: "json ?r = Inr (JObj [(''data'', JStr ''SMOp4oKs8J+YgA=='')])"
    by (rule json_http_response)
  note thm1 = base64_round_trip [where T = ?T and env = "constant_env (encoded_data ?T)"
      and w = world_cached and ts = "JStr ''123''" and sg = "JStr ''abcdef''"
      and response = ?r and rawJson = "JObj [(''data'', JStr ''SMOp4oKs8J+YgA=='')]"
      and ty = "''live''" and fn = "''live.json''"]
  have d1: "decodeData (constant_env (encoded_data ?T)) ''live'' ?r = Inr ?T"
    using thm1 n s j g by blast
  have w1: "writes (new_events world_cached
       (fetchAndCacheData (constant_env (encoded_data ?T)) ''live''
          ''live.json'' (JStr ''123'') (JStr ''abcdef'') world_cached)) =
       [(path_join CACHE_DIR ''live.json'', utf8_encode ?T)] \<and>
     files (fetchAndCacheData (constant_env (encoded_data ?T)) ''live''
          ''live.json'' (JStr ''123'') (JStr ''abcdef'') world_cached)
        (path_join CACHE_DIR ''live.json'') = Some (utf8_encode ?T)"
    using thm1 n s f1 j g wr by blast
  have r1: "toString_utf8 (Buffer_from_base64 (base64_encode (utf8_encode ?T))) = ?T"
    using thm1 s by blast
  have e2: "files (runUpdateCycle scenario_env world0) ''cache/upcoming.json'' = Some ''A''"
    using base64_round_trip [of ?T "http_response 200 ''OK'' (JObj [(''data'', JStr ''QQ=='')])"
        "JObj [(''data'', JStr ''QQ=='')]" scenario_env "''up''" "JStr ''123''" "JStr ''abcdef''"
        world0 "''upcoming.json''"]
      tok f
    by (simp add: json_http_response scenario_env_def api_env_fields)
  have p: "path_join CACHE_DIR ''live.json'' = ''cache/live.json''"
    by (simp add: cache_paths)
  from n s e eb f1 j wr d1 c w1 r1 tok f e2
  show ?thesis
    unfolding p e
    by (simp add: json_http_response scenario_env_def api_env_fields scalar_value_def)
qed

section \<open>Truthy data and the write (C10)\<close>

text \<open>
  C10, as the code has it: for a content response whose \<open>data\<close> is truthy,
  \<open>fetchAndCacheData\<close> attempts the write exactly when \<open>Buffer.from\<close> accepts the
  value, and then it writes the decoded content. \<open>Buffer.from\<close> accepts every string,
  well-formed base64 or not, so that a non-empty string always reaches the write. It
  throws a \<open>TypeError\<close> for a number and for \<open>true\<close>: then no write is attempted
  and every file is left as it was. For an array or an object the answer is that of the
  runtime.
\<close>

theorem truthy_data_write:
  assumes "fst (fetchWithRetry env CONTENT_URL (content_options ty ts sg) PROXY_URL w)
             = Inr response"
    and "json response = Inr rawJson"
    and "get_property rawJson ''data'' = Inr (Some v)"
    and "truthy (Some v)"
  shows "writes (new_events w (fetchAndCacheData env ty fn ts sg w)) =
           (case Buffer_from env v of
              Inl e \<Rightarrow> []
            | Inr buf \<Rightarrow> [(path_join CACHE_DIR fn, utf8_encode (toString_utf8 buf))]) \<and>
         (isl (Buffer_from env v) \<longrightarrow>
            files (fetchAndCacheData env ty fn ts sg w) = files w) \<and>
         (\<forall>s. v = JStr s \<longrightarrow>
            writes (new_events w (fetchAndCacheData env ty fn ts sg w)) =
              [(path_join CACHE_DIR fn, utf8_encode (toString_utf8 (Buffer_from_base64 s)))]) \<and>
         ((\<exists>n. v = JNum n) \<or> (\<exists>b. v = JBool b) \<longrightarrow>
            writes (new_events w (fetchAndCacheData env ty fn ts sg w)) = [] \<and>
            files (fetchAndCacheData env ty fn ts sg w) = files w)"
proof -
  have d: "decodeData env ty response =
      (case Buffer_from env v of Inl e \<Rightarrow> Inl e | Inr buf \<Rightarrow> Inr (toString_utf8 buf))"
    using assms(2,3,4) by (simp add: decodeData_def)
  have a: "writes (new_events w (fetchAndCacheData env ty fn ts sg w)) =
           (case Buffer_from env v of
              Inl e \<Rightarrow> []
            | Inr buf \<Rightarrow> [(path_join CACHE_DIR fn, utf8_encode (toString_utf8 buf))])"
  proof (cases "Buffer_from env v")
    case (Inl e)
    with d have "decodeData env ty response = Inl e" by simp
    from fetchAndCacheData_not_written(1) [OF assms(1) this] Inl show ?thesis by simp
  next
    case (Inr buf)
    with d have "decodeData env ty response = Inr (toString_utf8 buf)" by simp
    from fetchAndCacheData_written [OF assms(1) this] Inr show ?thesis by simp
  qed
  have b: "files (fetchAndCacheData env ty fn ts sg w) = files w" if "isl (Buffer_from env v)"
  proof -
    from that obtain e where "Buffer_from env v = Inl e" by (cases "Buffer_from env v") simp_all
    with d have "decodeData env ty response = Inl e" by simp
    from fetchAndCacheData_not_written(2) [OF assms(1) this] show ?thesis .
  qed
  have c: "isl (Buffer_from env v)" if "(\<exists>n. v = JNum n) \<or> (\<exists>b. v = JBool b)"
    using that by auto
  have s: "Buffer_from env v = Inr (Buffer_from_base64 s)" if "v = JStr s" for s
    using that by simp
  show ?thesis
  proof (intro conjI allI impI)
    show "writes (new_events w (fetchAndCacheData env ty fn ts sg w)) =
           (case Buffer_from env v of
              Inl e \<Rightarrow> []
            | Inr buf \<Rightarrow> [(path_join CACHE_DIR fn, utf8_encode (toString_utf8 buf))])"
      by (rule a)
  next
    assume "isl (Buffer_from env v)"
    then show "files (fetchAndCacheData env ty fn ts sg w) = files w" by (rule b)
  next
    fix s assume "v = JStr s"
    with a show "writes (new_events w (fetchAndCacheData env ty fn ts sg w)) =
              [(path_join CACHE_DIR fn, utf8_encode (toString_utf8 (Buffer_from_base64 s)))]"
      by simp
  next
    assume h: "(\<exists>n. v = JNum n) \<or> (\<exists>b. v = JBool b)"
    from c [OF h] a show "writes (new_events w (fetchAndCacheData env ty fn ts sg w)) = []"
      by (cases "Buffer_from env v") simp_all
  next
    assume h: "(\<exists>n. v = JNum n) \<or> (\<exists>b. v = JBool b)"
    from b [OF c [OF h]] show "files (fetchAndCacheData env ty fn ts sg w) = files w" .
  qed
qed

theorem truthy_data_write_witness:
  "fst (fetchWithRetry (constant_env sloppy_data) CONTENT_URL
          (content_options ''up'' (JStr ''123'') (JStr ''abcdef'')) PROXY_URL world0)
     = Inr (http_response 200 ''OK'' (JObj [(''data'', JStr ''Q!Q'')])) \<and>
   json (http_response 200 ''OK'' (JObj [(''data'', JStr ''Q!Q'')]))
     = Inr (JObj [(''data'', JStr ''Q!Q'')]) \<and>
   get_property (JObj [(''data'', JStr ''Q!Q'')]) ''data'' = Inr (Some (JStr ''Q!Q'')) \<and>
   truthy (Some (JStr ''Q!Q'')) \<and>
   writes (new_events world0
     (fetchAndCacheData (constant_env sloppy_data) ''up'' ''upcoming.json''
        (JStr ''123'') (JStr ''abcdef'') world0)) = [(''cache/upcoming.json'', ''A'')] \<and>
   fst (fetchWithRetry (constant_env number_data) CONTENT_URL
          (content_options ''live'' (JStr ''123'') (JStr ''abcdef'')) PROXY_URL world_cached)
     = Inr (http_response 200 ''OK'' (JObj [(''data'', JNum 5)])) \<and>
   json (http_response 200 ''OK'' (JObj [(''data'', JNum 5)])) = Inr (JObj [(''data'', JNum 5)]) \<and>
   get_property (JObj [(''data'', JNum 5)]) ''data'' = Inr (Some (JNum 5)) \<and>
   truthy (Some (JNum 5)) \<and>
   isl (Buffer_from (constant_env number_data) (JNum 5)) \<and>
   writes (new_events world_cached
     (fetchAndCacheData (constant_env number_data) ''live'' ''live.json''
        (JStr ''123'') (JStr ''abcdef'') world_cached)) = [] \<and>
   files (fetchAndCacheData (constant_env number_data) ''live'' ''live.json''
        (JStr ''123'') (JStr ''abcdef'') world_cached) = files world_cached \<and>
   fst (fetchWithRetry (constant_env array_data) CONTENT_URL
          (content_options ''up'' (JStr ''123'') (JStr ''abcdef'')) PROXY_URL world0)
     = Inr (http_response 200 ''OK'' (JObj [(''data'', JArr [JNum 65])])) \<and>
   json (http_response 200 ''OK'' (JObj [(''data'', JArr [JNum 65])]))
     = Inr (JObj [(''data'', JArr [JNum 65])]) \<and>
   get_property (JObj [(''data'', JArr [JNum 65])]) ''data'' = Inr (Some (JArr [JNum 65])) \<and>
   truthy (Some (JArr [JNum 65])) \<and>
   Buffer_from (constant_env array_data) (JArr [JNum 65]) = Inr ''A'' \<and>
   writes (new_events world0
     (fetchAndCacheData (constant_env array_data) ''up'' ''upcoming.json''
        (JStr ''123'') (JStr ''abcdef'') world0)) = [(''cache/upcoming.json'', ''A'')]"
proof -
  have f1: "fst (fetchWithRetry (constant_env sloppy_data) CONTENT_URL
          (content_options ''up'' (JStr ''123'') (JStr ''abcdef'')) PROXY_URL world0)
     = Inr (http_response 200 ''OK'' (JObj [(''data'', JStr ''Q!Q'')]))"
    by (simp add: constant_env_fetch sloppy_data_def check_response_200)
  have f2: "fst (fetchWithRetry (constant_env number_data) CONTENT_URL
          (content_options ''live'' (JStr ''123'') (JStr ''abcdef'')) PROXY_URL world_cached)
     = Inr (http_response 200 ''OK'' (JObj [(''data'', JNum 5)]))"
    by (simp add: constant_env_fetch number_data_def check_response_200)
  have f3: "fst (fetchWithRetry (constant_env array_data) CONTENT_URL
          (content_options ''up'' (JStr ''123'') (JStr ''abcdef'')) PROXY_URL world0)
     = Inr (http_response 200 ''OK'' (JObj [(''data'', JArr [JNum 65])]))"
    by (simp add: constant_env_fetch array_data_def check_response_200)
  have b: "Buffer_from_base64 ''Q!Q'' = ''A''"
    by (simp add: Buffer_from_base64_def unbase64_def char_of_def bit_Suc_0_iff)
  have t: "toString_utf8 ''A'' = [65]"
    by (simp add: toString_utf8_def)
  have a': "Buffer_from_object (constant_env array_data) (JArr [JNum 65]) = Inr ''A''"
    by (simp add: constant_env_fields node_from_object_def fromArrayLike_def char_of_def)
  then have a: "Buffer_from (constant_env array_data) (JArr [JNum 65]) = Inr ''A''"
    by simp
  have r1: "writes (new_events world0
     (fetchAndCacheData (constant_env sloppy_data) ''up'' ''upcoming.json''
        (JStr ''123'') (JStr ''abcdef'') world0)) = [(''cache/upcoming.json'', ''A'')]"
    using truthy_data_write [OF f1, of "JObj [(''data'', JStr ''Q!Q'')]" "JStr ''Q!Q''"
        "''upcoming.json''"]
    by (simp add: json_http_response b t encode_A cache_paths)
  have r2: "writes (new_events world_cached
     (fetchAndCacheData (constant_env number_data) ''live'' ''live.json''
        (JStr ''123'') (JStr ''abcdef'') world_cached)) = [] \<and>
   files (fetchAndCacheData (constant_env number_data) ''live'' ''live.json''
        (JStr ''123'') (JStr ''abcdef'') world_cached) = files world_cached"
    using truthy_data_write [OF f2, of "JObj [(''data'', JNum 5)]" "JNum 5" "''live.json''"]
    by (simp add: json_http_response)
  have r3: "writes (new_events world0
     (fetchAndCacheData (constant_env array_data) ''up'' ''upcoming.json''
        (JStr ''123'') (JStr ''abcdef'') world0)) = [(''cache/upcoming.json'', ''A'')]"
    using truthy_data_write [OF f3, of "JObj [(''data'', JArr [JNum 65])]" "JArr [JNum 65]"
        "''upcoming.json''"]
    by (simp add: json_http_response a' t encode_A cache_paths)
  from f1 f2 f3 a r1 r2 r3 show ?thesis
    by (simp add: json_http_response)
qed

text \<open>
  C10 as stated fails: the number 5 as \<open>data\<close> is truthy, \<open>Buffer.from\<close> throws a
  \<open>TypeError\<close> for it, and no write is attempted.
\<close>

theorem truthy_number_counterexample:
  "truthy (Some (JNum 5)) \<and>
   fst (fetchWithRetry (constant_env number_data) CONTENT_URL
          (content_options ''up'' (JStr ''123'') (JStr ''abcdef'')) PROXY_URL world0)
     = Inr (http_response 200 ''OK'' (JObj [(''data'', JNum 5)])) \<and>
   json (http_response 200 ''OK'' (JObj [(''data'', JNum 5)])) = Inr (JObj [(''data'', JNum 5)]) \<and>
   get_property (JObj [(''data'', JNum 5)]) ''data'' = Inr (Some (JNum 5)) \<and>
   isl (Buffer_from (constant_env number_data) (JNum 5)) \<and>
   writes (new_events world0
     (fetchAndCacheData (constant_env number_data) ''up'' ''upcoming.json''
        (JStr ''123'') (JStr ''abcdef'') world0)) = [] \<and>
   files (fetchAndCacheData (constant_env number_data) ''up'' ''upcoming.json''
        (JStr ''123'') (JStr ''abcdef'') world0) ''cache/upcoming.json'' = None"
proof -
  have f: "fst (fetchWithRetry (constant_env number_data) CONTENT_URL
          (content_options ''up'' (JStr ''123'') (JStr ''abcdef'')) PROXY_URL world0)
     = Inr (http_response 200 ''OK'' (JObj [(''data'', JNum 5)]))"
    by (simp add: constant_env_fetch number_data_def check_response_200)
  then have d: "fst (fetchAndDecode (constant_env number_data) ''up'' (JStr ''123'')
      (JStr ''abcdef'') world0) =
      Inl (TypeError ''The first argument must be of type string or an instance of Buffer, ArrayBuffer, or Array or an Array-like Object.'')"
    by (simp add: fetchAndDecode_eq decodeData_def json_http_response)
  have w: "files world0 ''cache/upcoming.json'' = None"
    by (simp add: world0_def)
  have ev: "writes (new_events world0
     (fetchAndCacheData (constant_env number_data) ''up'' ''upcoming.json''
        (JStr ''123'') (JStr ''abcdef'') world0)) = []"
    by (simp add: fetchAndCacheData_events d writes_attempts)
  have fl: "files (fetchAndCacheData (constant_env number_data) ''up'' ''upcoming.json''
        (JStr ''123'') (JStr ''abcdef'') world0) ''cache/upcoming.json'' = None"
    by (simp add: fetchAndCacheData_failed [OF d] fetchWithRetry_files w)
  from f ev fl show ?thesis
    by (simp add: json_http_response)
qed

end
